theory Spec2Isabelle
  imports Complex_Main "HOL-Library.Sublist"
begin

section \<open>Snapshot model (data.py)\<close>

text \<open>
  Python floats are modelled as exact reals: every comparison and every arithmetic step
  of the source is kept, rounding is not. Optional fields (\<open>Optional[float]\<close>) are
  \<open>real option\<close>, with \<open>None\<close> for Python's \<open>None\<close>.
  The dataclass field \<open>name\<close> of \<open>SymbolData\<close> is called \<open>long_name\<close> here,
  since \<open>Rule\<close> has a field \<open>name\<close> too.
\<close>

record SymbolData =
  symbol :: string
  current_price :: real
  previous_close :: real
  intraday_change_pct :: real
  change_5d_pct :: "real option"
  high_52w :: "real option"
  low_52w :: "real option"
  sma_200 :: "real option"
  long_name :: string

text \<open>A naive \<open>datetime\<close> is its number of microseconds since a fixed origin.\<close>

type_synonym datetime = int

record MarketSnapshot =
  timestamp :: datetime
  data :: "string \<rightharpoonup> SymbolData"

definition snapshot_get :: "MarketSnapshot \<Rightarrow> string \<Rightarrow> SymbolData option" where
  "snapshot_get snapshot k = data snapshot k"

section \<open>Indicator library (indicators.py)\<close>

definition get_drawdown_from_high :: "SymbolData \<Rightarrow> real option" where
  "get_drawdown_from_high symbol_data =
     (case high_52w symbol_data of
        None \<Rightarrow> None
      | Some h \<Rightarrow>
          if h = 0 then None
          else Some (((current_price symbol_data - h) / h) * 100))"

definition is_below_200dma :: "SymbolData \<Rightarrow> bool" where
  "is_below_200dma symbol_data =
     (case sma_200 symbol_data of
        None \<Rightarrow> False
      | Some s \<Rightarrow> current_price symbol_data < s)"

section \<open>Rule registry (rules.py)\<close>

datatype Severity = CRITICAL | HIGH | MEDIUM | LOW

fun severity_value :: "Severity \<Rightarrow> string" where
  "severity_value CRITICAL = ''critical''"
| "severity_value HIGH = ''high''"
| "severity_value MEDIUM = ''medium''"
| "severity_value LOW = ''low''"

text \<open>
  An exception is an instance of Python's class \<open>Exception\<close>, named by its class. A
  function that may raise returns \<open>py_exception + 'a\<close>, \<open>Inl\<close> for the raise.
\<close>

datatype py_exception =
    JSONDecodeError | IOError | UnicodeDecodeError
  | ValueError | TypeError | AttributeError | KeyError | ZeroDivisionError
  | OverflowError | OtherException string

text \<open>
  The side-channel dictionary \<open>ctx\<close> that a predicate fills: the keys \<open>'value'\<close>,
  \<open>'symbol'\<close> and \<open>'extra'\<close>, each absent or set. The predicate mutates it in place;
  here it returns it beside its boolean.
\<close>

record ctx =
  ctx_value :: "real option"
  ctx_symbol :: "string option"
  ctx_extra :: "(string \<times> real) list option"

definition empty_ctx :: ctx where
  "empty_ctx = \<lparr>ctx_value = None, ctx_symbol = None, ctx_extra = None\<rparr>"

record Rule =
  name :: string
  severity :: Severity
  category :: string
  description :: string
  check :: "MarketSnapshot \<Rightarrow> ctx \<Rightarrow> py_exception + (bool \<times> ctx)"
  message_template :: string

record TriggeredRule =
  rule :: Rule
  tr_value :: "real option"
  tr_symbol :: "string option"
  extra_context :: "(string \<times> real) list option"

text \<open>
  The configuration document: the section \<open>rules\<close> (numeric thresholds by key, and the
  list-valued key \<open>spy_drawdown_levels\<close> kept apart), the section \<open>cooldowns\<close>
  (minutes by severity name) and the section \<open>regime\<close> (the field
  \<open>regime_section\<close>). A missing section is the empty
  map, which is what \<open>config.get(section, {})\<close> yields. The module-global cache
  \<open>_config\<close> is the explicit argument \<open>config\<close>.
\<close>

record config =
  rules :: "string \<rightharpoonup> real"
  spy_drawdown_levels :: "int list option"
  cooldowns :: "string \<rightharpoonup> int"
  regime_section :: "string \<rightharpoonup> real"

definition default_config :: config where
  "default_config =
     \<lparr>rules = [''credit_stress_intraday'' \<mapsto> -1.5,
               ''credit_stress_5d'' \<mapsto> -3.0,
               ''liquidity_stress_intraday'' \<mapsto> 1.0,
               ''liquidity_stress_5d'' \<mapsto> 2.0,
               ''volatility_level'' \<mapsto> 30,
               ''volatility_spike'' \<mapsto> 8,
               ''growth_weakness_threshold'' \<mapsto> -1.5,
               ''smallcap_weakness_threshold'' \<mapsto> -2.0,
               ''defensive_hedge_bid'' \<mapsto> 1.5,
               ''rate_shock_bps'' \<mapsto> 15],
      spy_drawdown_levels = Some [-2, -4, -6, -10, -15, -20],
      cooldowns = [''critical'' \<mapsto> 45, ''high'' \<mapsto> 90,
                   ''medium'' \<mapsto> 240, ''low'' \<mapsto> 1440],
      regime_section = Map.empty\<rparr>"

text \<open>
  \<open>load_config\<close> returns the document of \<open>config.yml\<close> when the file is there
  (\<open>Some\<close>) and the defaults otherwise.
\<close>

definition load_config :: "config option \<Rightarrow> config" where
  "load_config file = (case file of Some c \<Rightarrow> c | None \<Rightarrow> default_config)"

definition get_threshold :: "config \<Rightarrow> string \<Rightarrow> real \<Rightarrow> real" where
  "get_threshold cfg k dflt = (case rules cfg k of None \<Rightarrow> dflt | Some v \<Rightarrow> v)"

definition cooldown_defaults :: "string \<rightharpoonup> int" where
  "cooldown_defaults =
     [''critical'' \<mapsto> 45, ''high'' \<mapsto> 90, ''medium'' \<mapsto> 240, ''low'' \<mapsto> 1440]"

definition get_cooldown_minutes :: "config \<Rightarrow> Severity \<Rightarrow> int" where
  "get_cooldown_minutes cfg sev =
     (case cooldowns cfg (severity_value sev) of
        Some m \<Rightarrow> m
      | None \<Rightarrow> (case cooldown_defaults (severity_value sev) of Some d \<Rightarrow> d | None \<Rightarrow> 60))"

subsection \<open>Condition predicates\<close>

text \<open>
  Each predicate takes the configuration it reads through \<open>get_threshold\<close> (those that
  read none take none), the snapshot and the dictionary \<open>ctx\<close>, and returns its boolean
  with the dictionary as it left it.
\<close>

definition check_credit_stress_intraday :: "config \<Rightarrow> MarketSnapshot \<Rightarrow> ctx \<Rightarrow> bool \<times> ctx" where
  "check_credit_stress_intraday cfg snapshot c =
     (case snapshot_get snapshot ''HYG'' of
        None \<Rightarrow> (False, c)
      | Some hyg \<Rightarrow>
          let threshold = get_threshold cfg ''credit_stress_intraday'' (-1.5);
              triggered = (intraday_change_pct hyg \<le> threshold)
          in if triggered
             then (triggered, c\<lparr>ctx_value := Some (intraday_change_pct hyg), ctx_symbol := Some ''HYG''\<rparr>)
             else (triggered, c))"

definition check_credit_stress_5d :: "config \<Rightarrow> MarketSnapshot \<Rightarrow> ctx \<Rightarrow> bool \<times> ctx" where
  "check_credit_stress_5d cfg snapshot c =
     (case snapshot_get snapshot ''HYG'' of
        None \<Rightarrow> (False, c)
      | Some hyg \<Rightarrow>
          (case change_5d_pct hyg of
             None \<Rightarrow> (False, c)
           | Some ch \<Rightarrow>
               let threshold = get_threshold cfg ''credit_stress_5d'' (-3.0);
                   triggered = (ch \<le> threshold)
               in if triggered
                  then (triggered, c\<lparr>ctx_value := Some ch, ctx_symbol := Some ''HYG''\<rparr>)
                  else (triggered, c)))"

definition check_liquidity_stress_intraday :: "config \<Rightarrow> MarketSnapshot \<Rightarrow> ctx \<Rightarrow> bool \<times> ctx" where
  "check_liquidity_stress_intraday cfg snapshot c =
     (case snapshot_get snapshot ''DX-Y.NYB'' of
        None \<Rightarrow> (False, c)
      | Some dxy \<Rightarrow>
          let threshold = get_threshold cfg ''liquidity_stress_intraday'' 1.0;
              triggered = (intraday_change_pct dxy \<ge> threshold)
          in if triggered
             then (triggered, c\<lparr>ctx_value := Some (intraday_change_pct dxy), ctx_symbol := Some ''DXY''\<rparr>)
             else (triggered, c))"

definition check_liquidity_stress_5d :: "config \<Rightarrow> MarketSnapshot \<Rightarrow> ctx \<Rightarrow> bool \<times> ctx" where
  "check_liquidity_stress_5d cfg snapshot c =
     (case snapshot_get snapshot ''DX-Y.NYB'' of
        None \<Rightarrow> (False, c)
      | Some dxy \<Rightarrow>
          (case change_5d_pct dxy of
             None \<Rightarrow> (False, c)
           | Some ch \<Rightarrow>
               let threshold = get_threshold cfg ''liquidity_stress_5d'' 2.0;
                   triggered = (ch \<ge> threshold)
               in if triggered
                  then (triggered, c\<lparr>ctx_value := Some ch, ctx_symbol := Some ''DXY''\<rparr>)
                  else (triggered, c)))"

definition check_volatility_elevated :: "config \<Rightarrow> MarketSnapshot \<Rightarrow> ctx \<Rightarrow> bool \<times> ctx" where
  "check_volatility_elevated cfg snapshot c =
     (case snapshot_get snapshot ''^VIX'' of
        None \<Rightarrow> (False, c)
      | Some vix \<Rightarrow>
          let threshold = get_threshold cfg ''volatility_level'' 30;
              triggered = (current_price vix \<ge> threshold)
          in if triggered
             then (triggered, c\<lparr>ctx_value := Some (current_price vix), ctx_symbol := Some ''VIX''\<rparr>)
             else (triggered, c))"

definition check_volatility_spike :: "config \<Rightarrow> MarketSnapshot \<Rightarrow> ctx \<Rightarrow> bool \<times> ctx" where
  "check_volatility_spike cfg snapshot c =
     (case snapshot_get snapshot ''^VIX'' of
        None \<Rightarrow> (False, c)
      | Some vix \<Rightarrow>
          let threshold = get_threshold cfg ''volatility_spike'' 8;
              triggered = (intraday_change_pct vix \<ge> threshold)
          in if triggered
             then (triggered, c\<lparr>ctx_value := Some (intraday_change_pct vix), ctx_symbol := Some ''VIX''\<rparr>)
             else (triggered, c))"

definition check_growth_weakness :: "config \<Rightarrow> MarketSnapshot \<Rightarrow> ctx \<Rightarrow> bool \<times> ctx" where
  "check_growth_weakness cfg snapshot c =
     (case (snapshot_get snapshot ''QQQ'', snapshot_get snapshot ''SPY'') of
        (Some qqq, Some spy) \<Rightarrow>
          let threshold = get_threshold cfg ''growth_weakness_threshold'' (-1.5);
              relative_perf = intraday_change_pct qqq - intraday_change_pct spy;
              triggered = (relative_perf \<le> threshold)
          in if triggered
             then (triggered, c\<lparr>ctx_value := Some relative_perf,
                     ctx_extra := Some [(''qqq'', intraday_change_pct qqq), (''spy'', intraday_change_pct spy)]\<rparr>)
             else (triggered, c)
      | _ \<Rightarrow> (False, c))"

definition check_smallcap_weakness :: "config \<Rightarrow> MarketSnapshot \<Rightarrow> ctx \<Rightarrow> bool \<times> ctx" where
  "check_smallcap_weakness cfg snapshot c =
     (case (snapshot_get snapshot ''IWM'', snapshot_get snapshot ''SPY'') of
        (Some iwm, Some spy) \<Rightarrow>
          let threshold = get_threshold cfg ''smallcap_weakness_threshold'' (-2.0);
              relative_perf = intraday_change_pct iwm - intraday_change_pct spy;
              triggered = (relative_perf \<le> threshold)
          in if triggered
             then (triggered, c\<lparr>ctx_value := Some relative_perf,
                     ctx_extra := Some [(''iwm'', intraday_change_pct iwm), (''spy'', intraday_change_pct spy)]\<rparr>)
             else (triggered, c)
      | _ \<Rightarrow> (False, c))"

definition check_defensive_hedge_bid :: "config \<Rightarrow> MarketSnapshot \<Rightarrow> ctx \<Rightarrow> bool \<times> ctx" where
  "check_defensive_hedge_bid cfg snapshot c =
     (case (snapshot_get snapshot ''GLD'', snapshot_get snapshot ''TLT'') of
        (Some gld, Some tlt) \<Rightarrow>
          let threshold = get_threshold cfg ''defensive_hedge_bid'' 1.5;
              triggered = (intraday_change_pct gld \<ge> threshold \<and> intraday_change_pct tlt \<ge> threshold)
          in if triggered
             then (triggered, c\<lparr>ctx_extra := Some [(''gld'', intraday_change_pct gld), (''tlt'', intraday_change_pct tlt)]\<rparr>)
             else (triggered, c)
      | _ \<Rightarrow> (False, c))"

definition check_combined_stress :: "MarketSnapshot \<Rightarrow> ctx \<Rightarrow> bool \<times> ctx" where
  "check_combined_stress snapshot c =
     (case (snapshot_get snapshot ''SPY'', snapshot_get snapshot ''TLT'') of
        (Some spy, Some tlt) \<Rightarrow>
          let triggered = (intraday_change_pct spy \<le> -2.5 \<and> intraday_change_pct tlt < 0)
          in if triggered
             then (triggered, c\<lparr>ctx_extra := Some [(''spy'', intraday_change_pct spy), (''tlt'', intraday_change_pct tlt)]\<rparr>)
             else (triggered, c)
      | _ \<Rightarrow> (False, c))"

definition check_risk_appetite_positive :: "MarketSnapshot \<Rightarrow> ctx \<Rightarrow> bool \<times> ctx" where
  "check_risk_appetite_positive snapshot c =
     (case (snapshot_get snapshot ''SPY'', snapshot_get snapshot ''QQQ'') of
        (Some spy, Some qqq) \<Rightarrow>
          let triggered = (intraday_change_pct spy \<ge> 1.5 \<and> intraday_change_pct qqq \<ge> intraday_change_pct spy)
          in if triggered
             then (triggered, c\<lparr>ctx_extra := Some [(''spy'', intraday_change_pct spy), (''qqq'', intraday_change_pct qqq)]\<rparr>)
             else (triggered, c)
      | _ \<Rightarrow> (False, c))"

definition check_btc_major_move :: "MarketSnapshot \<Rightarrow> ctx \<Rightarrow> bool \<times> ctx" where
  "check_btc_major_move snapshot c =
     (case snapshot_get snapshot ''BTC-USD'' of
        None \<Rightarrow> (False, c)
      | Some btc \<Rightarrow>
          let triggered = (\<bar>intraday_change_pct btc\<bar> \<ge> 8.0)
          in if triggered
             then (triggered, c\<lparr>ctx_value := Some (intraday_change_pct btc), ctx_symbol := Some ''BTC''\<rparr>)
             else (triggered, c))"

definition create_drawdown_checker :: "int \<Rightarrow> MarketSnapshot \<Rightarrow> ctx \<Rightarrow> bool \<times> ctx" where
  "create_drawdown_checker level snapshot c =
     (case snapshot_get snapshot ''SPY'' of
        None \<Rightarrow> (False, c)
      | Some spy \<Rightarrow>
          (case get_drawdown_from_high spy of
             None \<Rightarrow> (False, c)
           | Some drawdown \<Rightarrow>
               let triggered = (drawdown \<le> of_int level)
               in if triggered
                  then (triggered, c\<lparr>ctx_value := Some drawdown, ctx_symbol := Some ''SPY''\<rparr>)
                  else (triggered, c)))"

subsection \<open>The registry\<close>

text \<open>Decimal text of an integer, Python's \<open>str\<close> on an \<open>int\<close>.\<close>

definition digit_char :: "nat \<Rightarrow> char" where
  "digit_char d = ''0123456789'' ! d"

fun str_nat :: "nat \<Rightarrow> string" where
  "str_nat n = (if n < 10 then [digit_char n] else str_nat (n div 10) @ [digit_char (n mod 10)])"

declare str_nat.simps [simp del]

definition str_int :: "int \<Rightarrow> string" where
  "str_int i = (if i < 0 then CHR ''-'' # str_nat (nat (- i)) else str_nat (nat i))"

text \<open>
  On a snapshot and a configuration of the declared types the built-in predicates do not
  raise; \<open>returning\<close> makes such a predicate a \<open>check\<close> of a rule.
\<close>

definition returning ::
  "(MarketSnapshot \<Rightarrow> ctx \<Rightarrow> bool \<times> ctx) \<Rightarrow> MarketSnapshot \<Rightarrow> ctx \<Rightarrow> py_exception + (bool \<times> ctx)" where
  "returning f snapshot c = Inr (f snapshot c)"

definition DRAWDOWN_LEVELS :: "int list" where
  "DRAWDOWN_LEVELS = [-2, -4, -6, -10, -15, -20]"

definition drawdown_rule :: "int \<Rightarrow> Rule" where
  "drawdown_rule level =
     (let abs_level = \<bar>level\<bar>;
          sev = (if abs_level \<le> 6 then MEDIUM else HIGH)
      in \<lparr>name = ''SPY_DRAWDOWN_'' @ str_int abs_level @ ''PCT'',
          severity = sev,
          category = ''Opportunity'',
          description = ''SPY drawdown at '' @ str_int abs_level @ ''% from 52-week high'',
          check = returning (create_drawdown_checker level),
          message_template =
            ''Drawdown Alert: SPY {value:.1f}% from high - '' @ str_int abs_level @ ''% threshold''\<rparr>)"

definition STATIC_RULES :: "config \<Rightarrow> Rule list" where
  "STATIC_RULES cfg =
    [\<lparr>name = ''CREDIT_STRESS_INTRADAY'', severity = CRITICAL, category = ''Stress'',
      description = ''High yield bonds dropping sharply intraday'',
      check = returning (check_credit_stress_intraday cfg),
      message_template = ''Credit Stress: HYG {value:.1f}% intraday - credit spreads widening''\<rparr>,
     \<lparr>name = ''COMBINED_STRESS'', severity = CRITICAL, category = ''Stress'',
      description = ''Both equities and bonds selling off together'',
      check = returning check_combined_stress,
      message_template = ''Combined Stress: SPY {spy:.1f}% and TLT {tlt:.1f}% - nowhere to hide''\<rparr>,
     \<lparr>name = ''CREDIT_STRESS_5D'', severity = HIGH, category = ''Stress'',
      description = ''Sustained high yield weakness over 5 days'',
      check = returning (check_credit_stress_5d cfg),
      message_template = ''Credit Stress (5D): HYG {value:.1f}% over 5 days - sustained spread widening''\<rparr>,
     \<lparr>name = ''LIQUIDITY_STRESS_INTRADAY'', severity = HIGH, category = ''Stress'',
      description = ''Dollar spiking sharply (liquidity tightening)'',
      check = returning (check_liquidity_stress_intraday cfg),
      message_template = ''Liquidity Stress: DXY +{value:.1f}% intraday - dollar squeeze''\<rparr>,
     \<lparr>name = ''LIQUIDITY_STRESS_5D'', severity = HIGH, category = ''Stress'',
      description = ''Sustained dollar strength over 5 days'',
      check = returning (check_liquidity_stress_5d cfg),
      message_template = ''Liquidity Stress (5D): DXY +{value:.1f}% over 5 days - sustained tightening''\<rparr>,
     \<lparr>name = ''VOLATILITY_ELEVATED'', severity = HIGH, category = ''Stress'',
      description = ''VIX at elevated fear levels'',
      check = returning (check_volatility_elevated cfg),
      message_template = ''Volatility Elevated: VIX at {value:.1f} - fear gauge elevated''\<rparr>,
     \<lparr>name = ''VOLATILITY_SPIKE'', severity = HIGH, category = ''Stress'',
      description = ''VIX spiking sharply intraday'',
      check = returning (check_volatility_spike cfg),
      message_template = ''Volatility Spike: VIX +{value:.1f}% intraday - sudden fear''\<rparr>,
     \<lparr>name = ''GROWTH_WEAKNESS'', severity = MEDIUM, category = ''Leadership'',
      description = ''Growth/tech underperforming broad market'',
      check = returning (check_growth_weakness cfg),
      message_template = ''Growth Weakness: QQQ underperforming SPY by {value:.1f}%''\<rparr>,
     \<lparr>name = ''SMALLCAP_WEAKNESS'', severity = MEDIUM, category = ''Leadership'',
      description = ''Small caps underperforming (risk-off signal)'',
      check = returning (check_smallcap_weakness cfg),
      message_template = ''Small Cap Weakness: IWM underperforming SPY by {value:.1f}%''\<rparr>,
     \<lparr>name = ''DEFENSIVE_HEDGE_BID'', severity = MEDIUM, category = ''Sentiment'',
      description = ''Flight to safety into gold and treasuries'',
      check = returning (check_defensive_hedge_bid cfg),
      message_template = ''Defensive Bid: GLD +{gld:.1f}% and TLT +{tlt:.1f}% - flight to safety''\<rparr>,
     \<lparr>name = ''RISK_APPETITE_POSITIVE'', severity = LOW, category = ''Sentiment'',
      description = ''Positive risk appetite with growth leading'',
      check = returning check_risk_appetite_positive,
      message_template = ''Risk-On: SPY +{spy:.1f}% with QQQ +{qqq:.1f}% - growth leading''\<rparr>,
     \<lparr>name = ''BTC_MAJOR_MOVE'', severity = LOW, category = ''Sentiment'',
      description = ''Major Bitcoin move (risk sentiment proxy)'',
      check = returning check_btc_major_move,
      message_template = ''Crypto Signal: BTC {value:+.1f}% - major move in risk sentiment proxy''\<rparr>]"

text \<open>
  The module appends one drawdown rule for each level of the constant
  \<open>DRAWDOWN_LEVELS\<close>; the configuration key \<open>spy_drawdown_levels\<close> is not read.
\<close>

definition RULES :: "config \<Rightarrow> Rule list" where
  "RULES cfg = STATIC_RULES cfg @ map drawdown_rule DRAWDOWN_LEVELS"

subsection \<open>Evaluation\<close>

text \<open>
  The loop of \<open>evaluate_rules\<close>, over the registry it is given. Its state is the list
  \<open>triggered\<close> and the lines printed by the handler (rule name and exception). Each
  rule gets a fresh empty \<open>ctx\<close>; \<open>except Exception\<close> takes every raise of the
  predicate.
\<close>

fun evaluate_loop ::
  "Rule list \<Rightarrow> MarketSnapshot \<Rightarrow> TriggeredRule list \<times> (string \<times> py_exception) list
     \<Rightarrow> TriggeredRule list \<times> (string \<times> py_exception) list" where
  "evaluate_loop [] snapshot acc = acc"
| "evaluate_loop (r # rs) snapshot (triggered, printed) =
     (case check r snapshot empty_ctx of
        Inr (b, c) \<Rightarrow>
          if b
          then evaluate_loop rs snapshot
                 (triggered @ [\<lparr>rule = r, tr_value = ctx_value c, tr_symbol = ctx_symbol c,
                                 extra_context = ctx_extra c\<rparr>], printed)
          else evaluate_loop rs snapshot (triggered, printed)
      | Inl e \<Rightarrow> evaluate_loop rs snapshot (triggered, printed @ [(name r, e)]))"

definition evaluate_rules :: "Rule list \<Rightarrow> MarketSnapshot \<Rightarrow> TriggeredRule list" where
  "evaluate_rules registry snapshot = fst (evaluate_loop registry snapshot ([], []))"

definition evaluate_rules_printed :: "Rule list \<Rightarrow> MarketSnapshot \<Rightarrow> (string \<times> py_exception) list" where
  "evaluate_rules_printed registry snapshot = snd (evaluate_loop registry snapshot ([], []))"

definition triggered_names :: "TriggeredRule list \<Rightarrow> string list" where
  "triggered_names ts = map (\<lambda>t. name (rule t)) ts"

section \<open>Cooldown store (storage.py)\<close>

text \<open>
  A value stored under a rule name in \<open>last_alerts\<close> is represented by what
  \<open>datetime.fromisoformat\<close> makes of it: text that parses to a naive datetime
  (\<open>Timestamp\<close>; \<open>isoformat\<close> of a naive datetime is such a text and parses back to
  it), text that parses to a datetime with a UTC offset (\<open>AwareTimestamp\<close>), text that
  is rejected with \<open>ValueError\<close> (\<open>Malformed\<close>), and a JSON value that is not text,
  rejected with \<open>TypeError\<close> (\<open>NonString\<close>).
\<close>

datatype stored = Timestamp datetime | AwareTimestamp datetime | Malformed string | NonString

datatype parsed = Naive datetime | Aware datetime

fun fromisoformat :: "stored \<Rightarrow> py_exception + parsed" where
  "fromisoformat (Timestamp t) = Inr (Naive t)"
| "fromisoformat (AwareTimestamp t) = Inr (Aware t)"
| "fromisoformat (Malformed s) = Inl ValueError"
| "fromisoformat NonString = Inl TypeError"


text \<open>
  \<open>timedelta(minutes=m)\<close> in microseconds. A \<open>timedelta\<close> holds between
  \<open>-999999999\<close> and \<open>999999999\<close> whole days (the day count is the floor of
  \<open>m / 1440\<close>); outside it the constructor raises \<open>OverflowError\<close>.
\<close>

definition timedelta_minutes :: "int \<Rightarrow> py_exception + int" where
  "timedelta_minutes m =
     (if - 999999999 \<le> m div 1440 \<and> m div 1440 \<le> 999999999
      then Inr (m * 60 * 1000000)
      else Inl OverflowError)"

text \<open>
  The state document: a dictionary whose key \<open>last_alerts\<close> (when present) holds the
  dictionary from rule names to stored values and whose key \<open>version\<close> (when present)
  holds an integer.
\<close>

record state_doc =
  last_alerts :: "(string \<rightharpoonup> stored) option"
  version :: "int option"

text \<open>
  The state file: absent, present with content that \<open>open\<close> or \<open>json.load\<close>
  rejects by raising the given exception, or holding a state document. An empty file and
  a partly written document are content that \<open>json.load\<close> rejects with
  \<open>JSONDecodeError\<close>.

  \<open>on_write\<close> says how the next write of the file goes: it completes (\<open>Writes\<close>);
  \<open>open(path, 'w')\<close> raises \<open>IOError\<close> and the file is untouched (\<open>OpenRaises\<close>);
  or \<open>open\<close> succeeds, which truncates the file, and \<open>json.dump\<close> or the closing of
  the file then raises \<open>IOError\<close>, which leaves an empty or partly written file
  (\<open>DumpRaises\<close>).
\<close>

datatype state_file = NoFile | Unreadable py_exception | Holds state_doc

datatype write_outcome = Writes | OpenRaises | DumpRaises

record fs =
  content :: state_file
  on_write :: write_outcome

definition default_state :: state_doc where
  "default_state = \<lparr>last_alerts = Some Map.empty, version = Some 1\<rparr>"

text \<open>
  Every operation of the store takes the file system and returns it beside its result.
  \<open>load_state\<close> handles \<open>json.JSONDecodeError\<close> and \<open>IOError\<close>; any other
  exception of the read leaves it.
\<close>

definition load_state :: "fs \<Rightarrow> (py_exception + state_doc) \<times> fs" where
  "load_state f =
     (case content f of
        NoFile \<Rightarrow> (Inr default_state, f)
      | Holds d \<Rightarrow> (Inr d, f)
      | Unreadable e \<Rightarrow>
          if e = JSONDecodeError \<or> e = IOError then (Inr default_state, f) else (Inl e, f))"


text \<open>
  \<open>now\<close> is the reading of \<open>datetime.now()\<close> in the call. Only the parsing of the
  stored value is inside the \<open>try\<close>; the \<open>timedelta\<close> is built next, and the
  subtraction of a datetime with a UTC offset from the naive \<open>datetime.now()\<close> raises
  \<open>TypeError\<close> in the \<open>return\<close>.
\<close>

definition should_fire ::
  "config \<Rightarrow> datetime \<Rightarrow> string \<Rightarrow> Severity \<Rightarrow> fs \<Rightarrow> (py_exception + bool) \<times> fs" where
  "should_fire cfg now rule_name sev f =
     (case load_state f of
        (Inl e, f1) \<Rightarrow> (Inl e, f1)
      | (Inr st, f1) \<Rightarrow>
          let la = (case last_alerts st of None \<Rightarrow> Map.empty | Some m \<Rightarrow> m)
          in (case la rule_name of
                None \<Rightarrow> (Inr True, f1)
              | Some last_fire_str \<Rightarrow>
                  (case fromisoformat last_fire_str of
                     Inl e \<Rightarrow>
                       if e = ValueError \<or> e = TypeError then (Inr True, f1) else (Inl e, f1)
                   | Inr last_fire \<Rightarrow>
                       let cooldown_minutes = get_cooldown_minutes cfg sev
                       in (case timedelta_minutes cooldown_minutes of
                             Inl e \<Rightarrow> (Inl e, f1)
                           | Inr cooldown_delta \<Rightarrow>
                               (case last_fire of
                                  Aware t \<Rightarrow> (Inl TypeError, f1)
                                | Naive t \<Rightarrow> (Inr (now - t \<ge> cooldown_delta), f1))))))"


section \<open>Regime classifier (regime.py)\<close>

datatype Regime = NORMAL | DEFENSIVE

record RegimeAssessment =
  regime :: Regime
  triggers :: "string list"
  summary :: string

definition default_regime_thresholds :: "string \<rightharpoonup> real" where
  "default_regime_thresholds =
     [''hyg_5d_threshold'' \<mapsto> -3.0, ''dxy_5d_threshold'' \<mapsto> 2.0,
      ''vix_level_threshold'' \<mapsto> 30, ''spy_tlt_combined_threshold'' \<mapsto> -2.5]"

definition load_regime_thresholds :: "config option \<Rightarrow> (string \<rightharpoonup> real)" where
  "load_regime_thresholds file =
     (case file of Some c \<Rightarrow> regime_section c | None \<Rightarrow> default_regime_thresholds)"

definition dict_get :: "(string \<rightharpoonup> real) \<Rightarrow> string \<Rightarrow> real \<Rightarrow> real" where
  "dict_get d k dflt = (case d k of None \<Rightarrow> dflt | Some v \<Rightarrow> v)"

text \<open>
  The five checks of \<open>assess_regime\<close>, in the order of the source, each giving the
  list it appends to \<open>triggers\<close>. \<open>fmt\<close> is Python's formatting of a float with
  \<open>:.1f\<close>, a parameter since floats are not modelled; \<open>vix_prev\<close> is what
  \<open>get_vix_previous_close()\<close> returns.
\<close>

definition hyg_5d_stress :: "(real \<Rightarrow> string) \<Rightarrow> (string \<rightharpoonup> real) \<Rightarrow> MarketSnapshot \<Rightarrow> string list" where
  "hyg_5d_stress fmt thresholds snapshot =
     (case snapshot_get snapshot ''HYG'' of
        None \<Rightarrow> []
      | Some hyg \<Rightarrow>
          (case change_5d_pct hyg of
             None \<Rightarrow> []
           | Some ch \<Rightarrow>
               let hyg_threshold = dict_get thresholds ''hyg_5d_threshold'' (-3.0)
               in if ch \<le> hyg_threshold
                  then [''Credit stress: HYG 5D return '' @ fmt ch @ ''%'']
                  else []))"

definition dxy_5d_strength :: "(real \<Rightarrow> string) \<Rightarrow> (string \<rightharpoonup> real) \<Rightarrow> MarketSnapshot \<Rightarrow> string list" where
  "dxy_5d_strength fmt thresholds snapshot =
     (case snapshot_get snapshot ''DX-Y.NYB'' of
        None \<Rightarrow> []
      | Some dxy \<Rightarrow>
          (case change_5d_pct dxy of
             None \<Rightarrow> []
           | Some ch \<Rightarrow>
               let dxy_threshold = dict_get thresholds ''dxy_5d_threshold'' 2.0
               in if ch \<ge> dxy_threshold
                  then [''Liquidity tightening: DXY 5D return +'' @ fmt ch @ ''%'']
                  else []))"

definition vix_elevated_and_rising ::
  "(real \<Rightarrow> string) \<Rightarrow> (string \<rightharpoonup> real) \<Rightarrow> real option \<Rightarrow> MarketSnapshot \<Rightarrow> string list" where
  "vix_elevated_and_rising fmt thresholds vix_prev snapshot =
     (case snapshot_get snapshot ''^VIX'' of
        None \<Rightarrow> []
      | Some vix \<Rightarrow>
          let vix_threshold = dict_get thresholds ''vix_level_threshold'' 30
          in if current_price vix \<ge> vix_threshold
             then (case vix_prev of
                     Some p \<Rightarrow>
                       if current_price vix > p
                       then [''Elevated and rising volatility: VIX '' @ fmt (current_price vix)
                               @ '' (prev: '' @ fmt p @ '')'']
                       else []
                   | None \<Rightarrow> [''Elevated volatility: VIX '' @ fmt (current_price vix)])
             else [])"

definition spy_tlt_combined_stress :: "(real \<Rightarrow> string) \<Rightarrow> (string \<rightharpoonup> real) \<Rightarrow> MarketSnapshot \<Rightarrow> string list" where
  "spy_tlt_combined_stress fmt thresholds snapshot =
     (case (snapshot_get snapshot ''SPY'', snapshot_get snapshot ''TLT'') of
        (Some spy, Some tlt) \<Rightarrow>
          let spy_threshold = dict_get thresholds ''spy_tlt_combined_threshold'' (-2.5)
          in if intraday_change_pct spy \<le> spy_threshold \<and> intraday_change_pct tlt < 0
             then [''Combined stress: SPY '' @ fmt (intraday_change_pct spy) @ ''% and TLT ''
                     @ fmt (intraday_change_pct tlt) @ ''%'']
             else []
      | _ \<Rightarrow> [])"

definition structural_weakness :: "MarketSnapshot \<Rightarrow> string list" where
  "structural_weakness snapshot =
     (case snapshot_get snapshot ''SPY'' of
        None \<Rightarrow> []
      | Some spy \<Rightarrow>
          if is_below_200dma spy
          then (case snapshot_get snapshot ''^TNX'' of
                  None \<Rightarrow> []
                | Some tnx \<Rightarrow>
                    if intraday_change_pct tnx > 0
                    then [''Structural weakness: SPY below 200dma with rates rising'']
                    else [])
          else [])"

definition assess_regime ::
  "(real \<Rightarrow> string) \<Rightarrow> config option \<Rightarrow> real option \<Rightarrow> MarketSnapshot \<Rightarrow> RegimeAssessment" where
  "assess_regime fmt file vix_prev snapshot =
     (let thresholds = load_regime_thresholds file;
          trigs = hyg_5d_stress fmt thresholds snapshot
                  @ dxy_5d_strength fmt thresholds snapshot
                  @ vix_elevated_and_rising fmt thresholds vix_prev snapshot
                  @ spy_tlt_combined_stress fmt thresholds snapshot
                  @ structural_weakness snapshot
      in if trigs \<noteq> []
         then \<lparr>regime = DEFENSIVE, triggers = trigs,
               summary = ''DEFENSIVE regime - '' @ str_int (int (length trigs))
                           @ '' warning signal(s) active''\<rparr>
         else \<lparr>regime = NORMAL, triggers = trigs,
               summary = ''NORMAL regime - no significant stress signals detected''\<rparr>)"

section \<open>Formatting\<close>

text \<open>
  Python's \<open>format(x, '.1f')\<close> on the exact value: one decimal place, ties to the even
  digit, the sign of a negative value kept.
\<close>

definition round_half_even :: "real \<Rightarrow> int" where
  "round_half_even r =
     (let f = \<lfloor>r\<rfloor>; d = r - of_int f
      in if d < 1 / 2 then f else if d > 1 / 2 then f + 1 else if even f then f else f + 1)"

definition format_1f :: "real \<Rightarrow> string" where
  "format_1f x =
     (let n = nat (round_half_even (\<bar>x\<bar> * 10))
      in (if x < 0 then ''-'' else []) @ str_nat (n div 10) @ ''.'' @ str_nat (n mod 10))"

section \<open>The trigger conditions of the specification\<close>

text \<open>
  The five trigger conditions of the regime classifier as the specification words them
  (section 4.4), to be compared with what \<open>assess_regime\<close> collects. \<open>thresholds\<close> is
  the configured table, each key with its default.
\<close>

definition spec_credit_stress :: "(string \<rightharpoonup> real) \<Rightarrow> MarketSnapshot \<Rightarrow> bool" where
  "spec_credit_stress thresholds snapshot =
     (case snapshot_get snapshot ''HYG'' of
        None \<Rightarrow> False
      | Some hyg \<Rightarrow>
          (case change_5d_pct hyg of
             None \<Rightarrow> False
           | Some ch \<Rightarrow> ch \<le> dict_get thresholds ''hyg_5d_threshold'' (-3.0)))"

definition spec_liquidity_tightening :: "(string \<rightharpoonup> real) \<Rightarrow> MarketSnapshot \<Rightarrow> bool" where
  "spec_liquidity_tightening thresholds snapshot =
     (case snapshot_get snapshot ''DX-Y.NYB'' of
        None \<Rightarrow> False
      | Some dxy \<Rightarrow>
          (case change_5d_pct dxy of
             None \<Rightarrow> False
           | Some ch \<Rightarrow> ch \<ge> dict_get thresholds ''dxy_5d_threshold'' 2.0))"

definition spec_elevated_rising_volatility ::
  "(string \<rightharpoonup> real) \<Rightarrow> real option \<Rightarrow> MarketSnapshot \<Rightarrow> bool" where
  "spec_elevated_rising_volatility thresholds vix_prev snapshot =
     (case snapshot_get snapshot ''^VIX'' of
        None \<Rightarrow> False
      | Some vix \<Rightarrow>
          current_price vix \<ge> dict_get thresholds ''vix_level_threshold'' 30
          \<and> (case vix_prev of None \<Rightarrow> True | Some p \<Rightarrow> current_price vix > p))"

definition spec_combined_stress :: "(string \<rightharpoonup> real) \<Rightarrow> MarketSnapshot \<Rightarrow> bool" where
  "spec_combined_stress thresholds snapshot =
     (case snapshot_get snapshot ''SPY'' of
        None \<Rightarrow> False
      | Some spy \<Rightarrow>
          (case snapshot_get snapshot ''TLT'' of
             None \<Rightarrow> False
           | Some tlt \<Rightarrow>
               intraday_change_pct spy \<le> dict_get thresholds ''spy_tlt_combined_threshold'' (-2.5)
               \<and> intraday_change_pct tlt < 0))"

definition spec_structural_weakness :: "MarketSnapshot \<Rightarrow> bool" where
  "spec_structural_weakness snapshot =
     (case snapshot_get snapshot ''SPY'' of
        None \<Rightarrow> False
      | Some spy \<Rightarrow>
          (case sma_200 spy of
             None \<Rightarrow> False
           | Some avg \<Rightarrow>
               current_price spy < avg
               \<and> (case snapshot_get snapshot ''^TNX'' of
                     None \<Rightarrow> False
                   | Some tnx \<Rightarrow> intraday_change_pct tnx > 0)))"

definition spec_conditions ::
  "(string \<rightharpoonup> real) \<Rightarrow> real option \<Rightarrow> MarketSnapshot \<Rightarrow> bool list" where
  "spec_conditions thresholds vix_prev snapshot =
     [spec_credit_stress thresholds snapshot,
      spec_liquidity_tightening thresholds snapshot,
      spec_elevated_rising_volatility thresholds vix_prev snapshot,
      spec_combined_stress thresholds snapshot,
      spec_structural_weakness snapshot]"

definition count_true :: "bool list \<Rightarrow> nat" where
  "count_true bs = length (filter (\<lambda>b. b) bs)"

section \<open>Views of the state document\<close>

text \<open>
  The entry of a rule in a state document, as \<open>state.get("last_alerts", {})\<close> followed
  by a lookup sees it.
\<close>

definition last_fire_entry :: "state_doc \<Rightarrow> string \<Rightarrow> stored option" where
  "last_fire_entry st rule_name =
     (case last_alerts st of None \<Rightarrow> None | Some m \<Rightarrow> m rule_name)"

section \<open>Concrete inputs\<close>

text \<open>A snapshot holding the high-yield-bond instrument only, at \<open>-2.0%\<close> intraday.\<close>

definition hyg_data :: "real option \<Rightarrow> SymbolData" where
  "hyg_data ch5 = \<lparr>symbol = ''HYG'', current_price = 73.5, previous_close = 75,
     intraday_change_pct = -2.0, change_5d_pct = ch5, high_52w = Some 80,
     low_52w = Some 70, sma_200 = None, long_name = ''High Yield Corp Bond ETF''\<rparr>"

definition hyg_only :: "real option \<Rightarrow> MarketSnapshot" where
  "hyg_only ch5 = \<lparr>timestamp = 0, data = [''HYG'' \<mapsto> hyg_data ch5]\<rparr>"

text \<open>A rule whose predicate raises on every snapshot.\<close>

definition faulty_rule :: Rule where
  "faulty_rule = \<lparr>name = ''FAULTY'', severity = LOW, category = ''Test'',
     description = ''predicate that divides by zero'',
     check = (\<lambda>snapshot c. Inl ZeroDivisionError),
     message_template = ''Faulty''\<rparr>"

text \<open>A record whose 52-week high is negative.\<close>

definition negative_high :: SymbolData where
  "negative_high = \<lparr>symbol = ''X'', current_price = -20, previous_close = -20,
     intraday_change_pct = 0, change_5d_pct = None, high_52w = Some (-10),
     low_52w = None, sma_200 = None, long_name = ''X''\<rparr>"

definition spy_at :: "real \<Rightarrow> real \<Rightarrow> SymbolData" where
  "spy_at price high = \<lparr>symbol = ''SPY'', current_price = price, previous_close = price,
     intraday_change_pct = 0, change_5d_pct = None, high_52w = Some high,
     low_52w = None, sma_200 = None, long_name = ''S&P 500 ETF''\<rparr>"

text \<open>A snapshot holding the large-cap equity instrument only.\<close>

definition spy_only :: "real \<Rightarrow> real \<Rightarrow> MarketSnapshot" where
  "spy_only price high = \<lparr>timestamp = 0, data = [''SPY'' \<mapsto> spy_at price high]\<rparr>"

text \<open>
  A snapshot with SPY at \<open>-3.0%\<close> intraday and \<open>-2%\<close> from its high, and TLT at
  \<open>-1.0%\<close>; and one with SPY and QQQ both at \<open>+1.5%\<close> and BTC at \<open>+8.0%\<close>.
\<close>

definition instrument :: "string \<Rightarrow> real \<Rightarrow> real \<Rightarrow> SymbolData" where
  "instrument s price change =
     \<lparr>symbol = s, current_price = price, previous_close = price / (1 + change / 100),
      intraday_change_pct = change, change_5d_pct = None, high_52w = None,
      low_52w = None, sma_200 = None, long_name = s\<rparr>"

definition selloff_snapshot :: MarketSnapshot where
  "selloff_snapshot =
     \<lparr>timestamp = 0,
      data = [''SPY'' \<mapsto> (instrument ''SPY'' 98 (-3)) \<lparr>high_52w := Some 100\<rparr>,
              ''TLT'' \<mapsto> instrument ''TLT'' 90 (-1)]\<rparr>"

definition rally_snapshot :: MarketSnapshot where
  "rally_snapshot =
     \<lparr>timestamp = 0,
      data = [''SPY'' \<mapsto> instrument ''SPY'' 500 1.5,
              ''QQQ'' \<mapsto> instrument ''QQQ'' 400 1.5,
              ''BTC-USD'' \<mapsto> instrument ''BTC-USD'' 60000 8]\<rparr>"

text \<open>A volatility-index record at a given level, and its snapshot.\<close>

definition vix_only :: "real \<Rightarrow> MarketSnapshot" where
  "vix_only level = \<lparr>timestamp = 0, data = [''^VIX'' \<mapsto> instrument ''^VIX'' level 0]\<rparr>"



definition undecodable_fs :: fs where
  "undecodable_fs = \<lparr>content = Unreadable UnicodeDecodeError, on_write = Writes\<rparr>"





definition low_vix_threshold_config :: config where
  "low_vix_threshold_config =
     default_config\<lparr>regime_section := [''vix_level_threshold'' \<mapsto> 25]\<rparr>"

section \<open>Evaluation of concrete inputs\<close>

lemmas check_defs = check_credit_stress_intraday_def check_credit_stress_5d_def
  check_liquidity_stress_intraday_def check_liquidity_stress_5d_def
  check_volatility_elevated_def check_volatility_spike_def check_growth_weakness_def
  check_smallcap_weakness_def check_defensive_hedge_bid_def check_combined_stress_def
  check_risk_appetite_positive_def check_btc_major_move_def create_drawdown_checker_def

lemmas registry_defs = RULES_def STATIC_RULES_def returning_def drawdown_rule_def
  DRAWDOWN_LEVELS_def empty_ctx_def snapshot_get_def get_threshold_def

section \<open>The evaluation loop\<close>

lemma evaluate_loop_acc:
  "evaluate_loop rs snapshot (t, p) =
     (t @ fst (evaluate_loop rs snapshot ([], [])), p @ snd (evaluate_loop rs snapshot ([], [])))"
proof (induction rs arbitrary: t p)
  case Nil
  show ?case by simp
next
  case (Cons r rs)
  show ?case
  proof (cases "check r snapshot empty_ctx")
    case (Inl e)
    have a: "evaluate_loop rs snapshot (t, p @ [(name r, e)]) =
          (t @ fst (evaluate_loop rs snapshot ([], [])),
           (p @ [(name r, e)]) @ snd (evaluate_loop rs snapshot ([], [])))"
      by (rule Cons.IH)
    have b: "evaluate_loop rs snapshot ([], [(name r, e)]) =
          ([] @ fst (evaluate_loop rs snapshot ([], [])),
           [(name r, e)] @ snd (evaluate_loop rs snapshot ([], [])))"
      by (rule Cons.IH)
    show ?thesis using Inl by (simp add: a b)
  next
    case (Inr bc)
    obtain b c where bc: "bc = (b, c)" by (cases bc)
    show ?thesis
    proof (cases b)
      case True
      let ?x = "\<lparr>rule = r, tr_value = ctx_value c, tr_symbol = ctx_symbol c,
                 extra_context = ctx_extra c\<rparr>"
      have a: "evaluate_loop rs snapshot (t @ [?x], p) =
          ((t @ [?x]) @ fst (evaluate_loop rs snapshot ([], [])),
           p @ snd (evaluate_loop rs snapshot ([], [])))"
        by (rule Cons.IH)
      have b: "evaluate_loop rs snapshot ([?x], []) =
          ([?x] @ fst (evaluate_loop rs snapshot ([], [])),
           [] @ snd (evaluate_loop rs snapshot ([], [])))"
        by (rule Cons.IH)
      show ?thesis using Inr bc True by (simp add: a b)
    next
      case False
      have a: "evaluate_loop rs snapshot (t, p) =
          (t @ fst (evaluate_loop rs snapshot ([], [])),
           p @ snd (evaluate_loop rs snapshot ([], [])))"
        by (rule Cons.IH)
      show ?thesis using Inr bc False by (simp add: a)
    qed
  qed
qed

lemma evaluate_loop_append:
  "evaluate_loop (xs @ ys) snapshot acc = evaluate_loop ys snapshot (evaluate_loop xs snapshot acc)"
proof (induction xs arbitrary: acc)
  case Nil
  show ?case by simp
next
  case (Cons r xs)
  obtain t p where acc: "acc = (t, p)" by (cases acc)
  show ?case unfolding acc
    by (simp add: Cons.IH split: sum.splits prod.splits)
qed

lemma evaluate_rules_append:
  "evaluate_rules (xs @ ys) snapshot = evaluate_rules xs snapshot @ evaluate_rules ys snapshot"
proof -
  obtain t p where tp: "evaluate_loop xs snapshot ([], []) = (t, p)"
    by (cases "evaluate_loop xs snapshot ([], [])")
  have "evaluate_loop ys snapshot (t, p) =
        (t @ fst (evaluate_loop ys snapshot ([], [])), p @ snd (evaluate_loop ys snapshot ([], [])))"
    by (rule evaluate_loop_acc)
  then show ?thesis
    by (simp add: evaluate_rules_def evaluate_loop_append tp)
qed

lemma evaluate_rules_printed_append:
  "evaluate_rules_printed (xs @ ys) snapshot
     = evaluate_rules_printed xs snapshot @ evaluate_rules_printed ys snapshot"
proof -
  obtain t p where tp: "evaluate_loop xs snapshot ([], []) = (t, p)"
    by (cases "evaluate_loop xs snapshot ([], [])")
  have "evaluate_loop ys snapshot (t, p) =
        (t @ fst (evaluate_loop ys snapshot ([], [])), p @ snd (evaluate_loop ys snapshot ([], [])))"
    by (rule evaluate_loop_acc)
  then show ?thesis
    by (simp add: evaluate_rules_printed_def evaluate_loop_append tp)
qed

lemma evaluate_rules_Nil: "evaluate_rules [] snapshot = []"
  by (simp add: evaluate_rules_def)

lemma evaluate_rules_single:
  "evaluate_rules [r] snapshot =
     (case check r snapshot empty_ctx of
        Inl e \<Rightarrow> []
      | Inr (b, c) \<Rightarrow>
          if b then [\<lparr>rule = r, tr_value = ctx_value c, tr_symbol = ctx_symbol c,
                       extra_context = ctx_extra c\<rparr>]
          else [])"
  by (simp add: evaluate_rules_def split: sum.splits prod.splits)

lemma evaluate_rules_printed_single:
  "evaluate_rules_printed [r] snapshot =
     (case check r snapshot empty_ctx of Inl e \<Rightarrow> [(name r, e)] | Inr bc \<Rightarrow> [])"
  by (simp add: evaluate_rules_printed_def split: sum.splits prod.splits)

lemma evaluate_rules_Cons:
  "evaluate_rules (r # rs) snapshot = evaluate_rules [r] snapshot @ evaluate_rules rs snapshot"
  using evaluate_rules_append [of "[r]" rs snapshot] by simp

lemma evaluate_rules_sound:
  "t \<in> set (evaluate_rules rs snapshot) \<Longrightarrow>
     rule t \<in> set rs \<and> (\<exists>c. check (rule t) snapshot empty_ctx = Inr (True, c))"
proof (induction rs)
  case Nil
  then show ?case by (simp add: evaluate_rules_Nil)
next
  case (Cons r rs)
  from Cons.prems have "t \<in> set (evaluate_rules [r] snapshot) \<or> t \<in> set (evaluate_rules rs snapshot)"
    by (simp add: evaluate_rules_Cons [of r rs])
  then show ?case
  proof
    assume "t \<in> set (evaluate_rules [r] snapshot)"
    then show ?thesis
      by (cases "check r snapshot empty_ctx")
         (auto simp: evaluate_rules_single split: prod.splits if_splits)
  next
    assume "t \<in> set (evaluate_rules rs snapshot)"
    with Cons.IH show ?thesis by auto
  qed
qed

lemma evaluate_rules_complete:
  "r \<in> set rs \<Longrightarrow> check r snapshot empty_ctx = Inr (True, c) \<Longrightarrow>
     \<lparr>rule = r, tr_value = ctx_value c, tr_symbol = ctx_symbol c, extra_context = ctx_extra c\<rparr>
       \<in> set (evaluate_rules rs snapshot)"
proof (induction rs)
  case Nil
  then show ?case by simp
next
  case (Cons a rs)
  show ?case
  proof (cases "r = a")
    case True
    with Cons.prems show ?thesis
      by (simp add: evaluate_rules_Cons [of a rs] evaluate_rules_single)
  next
    case False
    with Cons show ?thesis
      by (simp add: evaluate_rules_Cons [of a rs])
  qed
qed

section \<open>Names of the registry\<close>

lemma triggered_names_append: "triggered_names (xs @ ys) = triggered_names xs @ triggered_names ys"
  by (simp add: triggered_names_def)

lemma triggered_names_subset:
  "set (triggered_names (evaluate_rules rs snapshot)) \<subseteq> name ` set rs"
  using evaluate_rules_sound by (fastforce simp: triggered_names_def)

lemma drawdown_rule_check:
  assumes "snapshot_get snapshot ''SPY'' = Some spy" "get_drawdown_from_high spy = Some d"
  shows "check (drawdown_rule level) snapshot empty_ctx =
           Inr (d \<le> of_int level,
                if d \<le> of_int level
                then empty_ctx\<lparr>ctx_value := Some d, ctx_symbol := Some ''SPY''\<rparr>
                else empty_ctx)"
  using assms by (simp add: drawdown_rule_def returning_def create_drawdown_checker_def Let_def)

lemma drawdown_rules_names:
  assumes "snapshot_get snapshot ''SPY'' = Some spy" "get_drawdown_from_high spy = Some d"
  shows "triggered_names (evaluate_rules (map drawdown_rule ls) snapshot)
           = map (\<lambda>l. name (drawdown_rule l)) (filter (\<lambda>l. d \<le> of_int l) ls)"
proof (induction ls)
  case Nil
  show ?case by (simp add: evaluate_rules_Nil triggered_names_def)
next
  case (Cons l ls)
  have "evaluate_rules (map drawdown_rule (l # ls)) snapshot
          = evaluate_rules [drawdown_rule l] snapshot @ evaluate_rules (map drawdown_rule ls) snapshot"
    using evaluate_rules_Cons [of "drawdown_rule l" "map drawdown_rule ls" snapshot] by simp
  then show ?case
    using Cons.IH
    by (simp add: triggered_names_append evaluate_rules_single drawdown_rule_check [OF assms])
       (simp add: triggered_names_def)
qed

lemma str_int_digits:
  "str_int 2 = ''2''" "str_int 4 = ''4''" "str_int 6 = ''6''"
  "str_int 10 = ''10''" "str_int 15 = ''15''" "str_int 20 = ''20''"
  by (simp_all add: str_int_def str_nat.simps digit_char_def)

lemma drawdown_rule_names:
  "name (drawdown_rule (-2)) = ''SPY_DRAWDOWN_2PCT''"
  "name (drawdown_rule (-4)) = ''SPY_DRAWDOWN_4PCT''"
  "name (drawdown_rule (-6)) = ''SPY_DRAWDOWN_6PCT''"
  "name (drawdown_rule (-10)) = ''SPY_DRAWDOWN_10PCT''"
  "name (drawdown_rule (-15)) = ''SPY_DRAWDOWN_15PCT''"
  "name (drawdown_rule (-20)) = ''SPY_DRAWDOWN_20PCT''"
  by (simp_all add: drawdown_rule_def str_int_digits)

lemma static_rule_names:
  "name ` set (STATIC_RULES cfg) =
     {''CREDIT_STRESS_INTRADAY'', ''COMBINED_STRESS'', ''CREDIT_STRESS_5D'',
      ''LIQUIDITY_STRESS_INTRADAY'', ''LIQUIDITY_STRESS_5D'', ''VOLATILITY_ELEVATED'',
      ''VOLATILITY_SPIKE'', ''GROWTH_WEAKNESS'', ''SMALLCAP_WEAKNESS'', ''DEFENSIVE_HEDGE_BID'',
      ''RISK_APPETITE_POSITIVE'', ''BTC_MAJOR_MOVE''}"
  by (simp add: STATIC_RULES_def)

lemma RULES_names_split:
  "triggered_names (evaluate_rules (RULES cfg) snapshot)
     = triggered_names (evaluate_rules (STATIC_RULES cfg) snapshot)
       @ triggered_names (evaluate_rules (map drawdown_rule DRAWDOWN_LEVELS) snapshot)"
  by (simp add: RULES_def evaluate_rules_append triggered_names_append)

lemma triggered_name_complete:
  assumes "r \<in> set rs" and "check r snapshot empty_ctx = Inr (True, c)"
  shows "name r \<in> set (triggered_names (evaluate_rules rs snapshot))"
proof -
  let ?t = "\<lparr>rule = r, tr_value = ctx_value c, tr_symbol = ctx_symbol c,
             extra_context = ctx_extra c\<rparr>"
  have "?t \<in> set (evaluate_rules rs snapshot)"
    using assms by (rule evaluate_rules_complete)
  then have "name (rule ?t) \<in> (\<lambda>t. name (rule t)) ` set (evaluate_rules rs snapshot)"
    by (rule imageI)
  then show ?thesis by (simp add: triggered_names_def)
qed

lemma hyg_only_rules:
  assumes "data snapshot = [''HYG'' \<mapsto> hyg]" and "intraday_change_pct hyg = -2"
  shows "triggered_names (evaluate_rules (RULES (load_config None)) snapshot)
           = (case change_5d_pct hyg of
                None \<Rightarrow> [''CREDIT_STRESS_INTRADAY'']
              | Some ch \<Rightarrow> if ch \<le> -3 then [''CREDIT_STRESS_INTRADAY'', ''CREDIT_STRESS_5D'']
                           else [''CREDIT_STRESS_INTRADAY''])"
  using assms
  by (simp add: triggered_names_def evaluate_rules_def registry_defs check_defs
        load_config_def default_config_def split: option.splits)

lemma hyg_only_regime:
  assumes "data snapshot = [''HYG'' \<mapsto> hyg]"
  shows "assess_regime fmt None vix_prev snapshot
           = (case change_5d_pct hyg of
                None \<Rightarrow> \<lparr>regime = NORMAL, triggers = [],
                          summary = ''NORMAL regime - no significant stress signals detected''\<rparr>
              | Some ch \<Rightarrow>
                  if ch \<le> -3
                  then \<lparr>regime = DEFENSIVE,
                        triggers = [''Credit stress: HYG 5D return '' @ fmt ch @ ''%''],
                        summary = ''DEFENSIVE regime - 1 warning signal(s) active''\<rparr>
                  else \<lparr>regime = NORMAL, triggers = [],
                         summary = ''NORMAL regime - no significant stress signals detected''\<rparr>)"
  using assms
  by (simp add: assess_regime_def load_regime_thresholds_def default_regime_thresholds_def
      hyg_5d_stress_def dxy_5d_strength_def vix_elevated_and_rising_def
      spy_tlt_combined_stress_def structural_weakness_def snapshot_get_def dict_get_def
      str_int_def str_nat.simps digit_char_def split: option.splits)

section \<open>The regime classifier\<close>

lemma hyg_5d_stress_length:
  "length (hyg_5d_stress fmt th s) = (if spec_credit_stress th s then 1 else 0)"
  by (simp add: hyg_5d_stress_def spec_credit_stress_def split: option.splits)

lemma dxy_5d_strength_length:
  "length (dxy_5d_strength fmt th s) = (if spec_liquidity_tightening th s then 1 else 0)"
  by (simp add: dxy_5d_strength_def spec_liquidity_tightening_def split: option.splits)

lemma vix_elevated_and_rising_length:
  "length (vix_elevated_and_rising fmt th p s)
     = (if spec_elevated_rising_volatility th p s then 1 else 0)"
  by (simp add: vix_elevated_and_rising_def spec_elevated_rising_volatility_def Let_def
      split: option.splits)

lemma spy_tlt_combined_stress_length:
  "length (spy_tlt_combined_stress fmt th s) = (if spec_combined_stress th s then 1 else 0)"
  by (simp add: spy_tlt_combined_stress_def spec_combined_stress_def split: option.splits)

lemma structural_weakness_length:
  "length (structural_weakness s) = (if spec_structural_weakness s then 1 else 0)"
  by (simp add: structural_weakness_def spec_structural_weakness_def is_below_200dma_def
      split: option.splits)

lemma hyg_5d_stress_prefix:
  "t \<in> set (hyg_5d_stress fmt th s) \<Longrightarrow> prefix ''Credit stress'' t"
  by (auto simp: hyg_5d_stress_def split: option.splits if_splits)

lemma dxy_5d_strength_prefix:
  "t \<in> set (dxy_5d_strength fmt th s) \<Longrightarrow> prefix ''Liquidity tightening'' t"
  by (auto simp: dxy_5d_strength_def split: option.splits if_splits)

lemma vix_elevated_and_rising_prefix:
  "t \<in> set (vix_elevated_and_rising fmt th p s) \<Longrightarrow> prefix ''Elevated'' t"
  by (auto simp: vix_elevated_and_rising_def Let_def split: option.splits if_splits)

lemma spy_tlt_combined_stress_prefix:
  "t \<in> set (spy_tlt_combined_stress fmt th s) \<Longrightarrow> prefix ''Combined stress'' t"
  by (auto simp: spy_tlt_combined_stress_def split: option.splits if_splits)

lemma structural_weakness_eq:
  "structural_weakness s =
     (if spec_structural_weakness s
      then [''Structural weakness: SPY below 200dma with rates rising''] else [])"
  by (simp add: structural_weakness_def spec_structural_weakness_def is_below_200dma_def
      split: option.splits)

lemma structural_weakness_prefix:
  "t \<in> set (structural_weakness s) \<Longrightarrow> prefix ''Structural weakness'' t"
  by (cases "spec_structural_weakness s") (simp_all add: structural_weakness_eq)

lemma nonempty_has_member: "length xs = (if c then 1 else 0) \<Longrightarrow> c \<Longrightarrow> \<exists>t. t \<in> set xs"
  by (cases xs) auto

lemma triggers_assess_regime:
  "triggers (assess_regime fmt file vix_prev snapshot)
     = hyg_5d_stress fmt (load_regime_thresholds file) snapshot
       @ dxy_5d_strength fmt (load_regime_thresholds file) snapshot
       @ vix_elevated_and_rising fmt (load_regime_thresholds file) vix_prev snapshot
       @ spy_tlt_combined_stress fmt (load_regime_thresholds file) snapshot
       @ structural_weakness snapshot"
  by (simp add: assess_regime_def Let_def)

lemma length_triggers:
  "length (triggers (assess_regime fmt file vix_prev snapshot))
     = count_true (spec_conditions (load_regime_thresholds file) vix_prev snapshot)"
  by (simp add: triggers_assess_regime count_true_def spec_conditions_def
      hyg_5d_stress_length dxy_5d_strength_length vix_elevated_and_rising_length
      spy_tlt_combined_stress_length structural_weakness_length)

lemma regime_assess_regime:
  "regime (assess_regime fmt file vix_prev snapshot)
     = (if triggers (assess_regime fmt file vix_prev snapshot) = [] then NORMAL else DEFENSIVE)"
  by (simp add: assess_regime_def Let_def)

lemma summary_assess_regime:
  "summary (assess_regime fmt file vix_prev snapshot)
     = (if triggers (assess_regime fmt file vix_prev snapshot) = []
        then ''NORMAL regime - no significant stress signals detected''
        else ''DEFENSIVE regime - ''
             @ str_int (int (length (triggers (assess_regime fmt file vix_prev snapshot))))
             @ '' warning signal(s) active'')"
  by (simp add: assess_regime_def Let_def)

lemma count_true_zero: "count_true bs = 0 \<longleftrightarrow> True \<notin> set bs"
  by (induction bs) (auto simp: count_true_def)


lemma labels_exclusive:
  assumes "prefix p t" and "\<not> prefix p q" and "\<not> prefix q p"
  shows "\<not> prefix q t"
  using assms prefix_same_cases by blast

lemma label_iff:
  assumes len: "length blk = (if c then 1 else 0)"
      and own: "\<And>t. t \<in> set blk \<Longrightarrow> prefix p t"
      and others: "\<And>t. t \<in> set rest \<Longrightarrow> \<not> prefix p t"
  shows "c \<longleftrightarrow> (\<exists>t \<in> set blk \<union> set rest. prefix p t)"
proof
  assume c
  with len obtain t where "t \<in> set blk" using nonempty_has_member by blast
  with own show "\<exists>t \<in> set blk \<union> set rest. prefix p t" by blast
next
  assume "\<exists>t \<in> set blk \<union> set rest. prefix p t"
  then obtain t where "t \<in> set blk" using others by blast
  then have "blk \<noteq> []" by auto
  with len show c by (cases c) auto
qed

lemma vix_block_eq:
  assumes "snapshot_get snapshot ''^VIX'' = Some vix"
  shows "vix_elevated_and_rising fmt th vix_prev snapshot =
           (if current_price vix \<ge> dict_get th ''vix_level_threshold'' 30
            then (case vix_prev of
                    Some p \<Rightarrow>
                      if current_price vix > p
                      then [''Elevated and rising volatility: VIX '' @ fmt (current_price vix)
                              @ '' (prev: '' @ fmt p @ '')'']
                      else []
                  | None \<Rightarrow> [''Elevated volatility: VIX '' @ fmt (current_price vix)])
            else [])"
  using assms by (simp add: vix_elevated_and_rising_def Let_def)

lemma elevated_only_in_vix_block:
  "(\<exists>t \<in> set (triggers (assess_regime fmt file vix_prev snapshot)). prefix ''Elevated'' t)
     \<longleftrightarrow> vix_elevated_and_rising fmt (load_regime_thresholds file) vix_prev snapshot \<noteq> []"
proof -
  let ?th = "load_regime_thresholds file"
  let ?b1 = "hyg_5d_stress fmt ?th snapshot"
  let ?b2 = "dxy_5d_strength fmt ?th snapshot"
  let ?b3 = "vix_elevated_and_rising fmt ?th vix_prev snapshot"
  let ?b4 = "spy_tlt_combined_stress fmt ?th snapshot"
  let ?b5 = "structural_weakness snapshot"
  have n1: "\<not> prefix ''Elevated'' t" if "t \<in> set ?b1" for t
    using that by (rule hyg_5d_stress_prefix [THEN labels_exclusive]) simp_all
  have n2: "\<not> prefix ''Elevated'' t" if "t \<in> set ?b2" for t
    using that by (rule dxy_5d_strength_prefix [THEN labels_exclusive]) simp_all
  have n4: "\<not> prefix ''Elevated'' t" if "t \<in> set ?b4" for t
    using that by (rule spy_tlt_combined_stress_prefix [THEN labels_exclusive]) simp_all
  have n5: "\<not> prefix ''Elevated'' t" if "t \<in> set ?b5" for t
    using that by (rule structural_weakness_prefix [THEN labels_exclusive]) simp_all
  have p3: "prefix ''Elevated'' t" if "t \<in> set ?b3" for t
    using that by (rule vix_elevated_and_rising_prefix)
  show ?thesis
  proof
    assume "\<exists>t \<in> set (triggers (assess_regime fmt file vix_prev snapshot)). prefix ''Elevated'' t"
    then obtain t where "t \<in> set ?b3"
      using n1 n2 n4 n5 by (auto simp: triggers_assess_regime)
    then show "?b3 \<noteq> []" by auto
  next
    assume "?b3 \<noteq> []"
    then obtain t where t: "t \<in> set ?b3" by (cases ?b3) auto
    then have "t \<in> set (triggers (assess_regime fmt file vix_prev snapshot))"
      by (simp add: triggers_assess_regime)
    with p3 [OF t] show "\<exists>t \<in> set (triggers (assess_regime fmt file vix_prev snapshot)). prefix ''Elevated'' t"
      by blast
  qed
qed

subsection \<open>The volatility trigger and the configured threshold\<close>

lemma vix_trigger_on_table:
  assumes "snapshot_get snapshot ''^VIX'' = Some vix"
  shows "(\<forall>p. vix_prev = Some p \<longrightarrow>
            ((\<exists>t \<in> set (triggers (assess_regime fmt cfg_file vix_prev snapshot)). prefix ''Elevated'' t)
               \<longleftrightarrow> current_price vix \<ge> dict_get (load_regime_thresholds cfg_file) ''vix_level_threshold'' 30
                   \<and> current_price vix > p)
          \<and> (current_price vix \<ge> dict_get (load_regime_thresholds cfg_file) ''vix_level_threshold'' 30
               \<and> current_price vix > p \<longrightarrow>
              ''Elevated and rising volatility: VIX '' @ fmt (current_price vix)
                 @ '' (prev: '' @ fmt p @ '')''
                \<in> set (triggers (assess_regime fmt cfg_file vix_prev snapshot))))
       \<and> (vix_prev = None \<longrightarrow>
            ((\<exists>t \<in> set (triggers (assess_regime fmt cfg_file vix_prev snapshot)). prefix ''Elevated'' t)
               \<longleftrightarrow> current_price vix \<ge> dict_get (load_regime_thresholds cfg_file) ''vix_level_threshold'' 30)
          \<and> (current_price vix \<ge> dict_get (load_regime_thresholds cfg_file) ''vix_level_threshold'' 30 \<longrightarrow>
              ''Elevated volatility: VIX '' @ fmt (current_price vix)
                \<in> set (triggers (assess_regime fmt cfg_file vix_prev snapshot)))
          \<and> \<not> (\<exists>t \<in> set (triggers (assess_regime fmt cfg_file vix_prev snapshot)).
                  prefix ''Elevated and rising'' t))
       \<and> (\<forall>x y z. ''Elevated and rising volatility: VIX '' @ x @ '' (prev: '' @ y @ '')''
                  \<noteq> ''Elevated volatility: VIX '' @ z)
       \<and> dict_get (load_regime_thresholds None) ''vix_level_threshold'' 30 = 30"
proof (intro conjI allI impI)
  fix p assume p: "vix_prev = Some p"
  show "(\<exists>t \<in> set (triggers (assess_regime fmt cfg_file vix_prev snapshot)). prefix ''Elevated'' t)
               \<longleftrightarrow> current_price vix \<ge> dict_get (load_regime_thresholds cfg_file) ''vix_level_threshold'' 30
                   \<and> current_price vix > p"
    by (simp add: elevated_only_in_vix_block vix_block_eq [OF assms] p)
  assume "current_price vix \<ge> dict_get (load_regime_thresholds cfg_file) ''vix_level_threshold'' 30
               \<and> current_price vix > p"
  then show "''Elevated and rising volatility: VIX '' @ fmt (current_price vix)
                 @ '' (prev: '' @ fmt p @ '')''
                \<in> set (triggers (assess_regime fmt cfg_file vix_prev snapshot))"
    by (simp add: triggers_assess_regime vix_block_eq [OF assms] p)
next
  assume n: "vix_prev = None"
  show "(\<exists>t \<in> set (triggers (assess_regime fmt cfg_file vix_prev snapshot)). prefix ''Elevated'' t)
               \<longleftrightarrow> current_price vix \<ge> dict_get (load_regime_thresholds cfg_file) ''vix_level_threshold'' 30"
    by (simp add: elevated_only_in_vix_block vix_block_eq [OF assms] n)
  show "\<not> (\<exists>t \<in> set (triggers (assess_regime fmt cfg_file vix_prev snapshot)).
                  prefix ''Elevated and rising'' t)"
  proof
    assume "\<exists>t \<in> set (triggers (assess_regime fmt cfg_file vix_prev snapshot)).
                  prefix ''Elevated and rising'' t"
    then obtain t where t: "t \<in> set (triggers (assess_regime fmt cfg_file vix_prev snapshot))"
      and r: "prefix ''Elevated and rising'' t" by blast
    have "prefix ''Elevated'' ''Elevated and rising''" by simp
    from this r have e: "prefix ''Elevated'' t" by (rule prefix_order.trans)
    with t have "vix_elevated_and_rising fmt (load_regime_thresholds cfg_file) vix_prev snapshot \<noteq> []"
      using elevated_only_in_vix_block by blast
    then have T: "triggers (assess_regime fmt cfg_file vix_prev snapshot)
              = hyg_5d_stress fmt (load_regime_thresholds cfg_file) snapshot
                @ dxy_5d_strength fmt (load_regime_thresholds cfg_file) snapshot
                @ [''Elevated volatility: VIX '' @ fmt (current_price vix)]
                @ spy_tlt_combined_stress fmt (load_regime_thresholds cfg_file) snapshot
                @ structural_weakness snapshot"
      by (simp add: triggers_assess_regime vix_block_eq [OF assms] n split: if_splits)
    have "\<not> prefix ''Elevated'' u" if "u \<in> set (hyg_5d_stress fmt (load_regime_thresholds cfg_file) snapshot)" for u
      using that by (rule hyg_5d_stress_prefix [THEN labels_exclusive]) simp_all
    moreover have "\<not> prefix ''Elevated'' u" if "u \<in> set (dxy_5d_strength fmt (load_regime_thresholds cfg_file) snapshot)" for u
      using that by (rule dxy_5d_strength_prefix [THEN labels_exclusive]) simp_all
    moreover have "\<not> prefix ''Elevated'' u" if "u \<in> set (spy_tlt_combined_stress fmt (load_regime_thresholds cfg_file) snapshot)" for u
      using that by (rule spy_tlt_combined_stress_prefix [THEN labels_exclusive]) simp_all
    moreover have "\<not> prefix ''Elevated'' u" if "u \<in> set (structural_weakness snapshot)" for u
      using that by (rule structural_weakness_prefix [THEN labels_exclusive]) simp_all
    ultimately have "t = ''Elevated volatility: VIX '' @ fmt (current_price vix)"
      using t e unfolding T by auto
    with r show False by simp
  qed
  assume "current_price vix \<ge> dict_get (load_regime_thresholds cfg_file) ''vix_level_threshold'' 30"
  then show "''Elevated volatility: VIX '' @ fmt (current_price vix)
                \<in> set (triggers (assess_regime fmt cfg_file vix_prev snapshot))"
    by (simp add: triggers_assess_regime vix_block_eq [OF assms] n)
next
  fix x y z :: string
  show "''Elevated and rising volatility: VIX '' @ x @ '' (prev: '' @ y @ '')''
                  \<noteq> ''Elevated volatility: VIX '' @ z"
    by simp
next
  show "dict_get (load_regime_thresholds None) ''vix_level_threshold'' 30 = 30"
    by (simp add: dict_get_def load_regime_thresholds_def default_regime_thresholds_def)
qed

lemma configured_vix_threshold:
  "dict_get (load_regime_thresholds cfg_file) ''vix_level_threshold'' 30
     = (case cfg_file of
          None \<Rightarrow> 30
        | Some c \<Rightarrow> (case regime_section c ''vix_level_threshold'' of None \<Rightarrow> 30 | Some v \<Rightarrow> v))"
  by (simp add: dict_get_def load_regime_thresholds_def default_regime_thresholds_def
      split: option.splits)

section \<open>The cooldown store\<close>

lemma load_state_unchanged: "snd (load_state f) = f"
  by (simp add: load_state_def split: state_file.splits)

lemma load_state_pair: "load_state f = (fst (load_state f), f)"
  using load_state_unchanged [of f] by (cases "load_state f") simp



lemma should_fire_on_state:
  assumes "fst (load_state f) = Inr st"
  shows "should_fire cfg now rule_name sev f =
           ((case last_fire_entry st rule_name of
               None \<Rightarrow> Inr True
             | Some (Timestamp t) \<Rightarrow>
                 (case timedelta_minutes (get_cooldown_minutes cfg sev) of
                    Inl e \<Rightarrow> Inl e
                  | Inr d \<Rightarrow> Inr (now - t \<ge> d))
             | Some (AwareTimestamp t) \<Rightarrow>
                 (case timedelta_minutes (get_cooldown_minutes cfg sev) of
                    Inl e \<Rightarrow> Inl e
                  | Inr d \<Rightarrow> Inl TypeError)
             | Some (Malformed s) \<Rightarrow> Inr True
             | Some NonString \<Rightarrow> Inr True), f)"
proof -
  have "load_state f = (Inr st, f)"
    using load_state_pair [of f] assms by simp
  then show ?thesis
    by (simp add: should_fire_def last_fire_entry_def Let_def
        split: option.splits stored.splits sum.splits)
qed

lemma should_fire_raises:
  assumes "fst (load_state f) = Inl e"
  shows "should_fire cfg now rule_name sev f = (Inl e, f)"
proof -
  have "load_state f = (Inl e, f)"
    using load_state_pair [of f] assms by simp
  then show ?thesis
    by (simp add: should_fire_def)
qed




lemma should_fire_fail_open:
  "(fst (load_state f) = Inr st \<and>
      (last_fire_entry st rule_name = Some (Malformed s) \<or> last_fire_entry st rule_name = Some NonString)
      \<longrightarrow> should_fire cfg now rule_name sev f = (Inr True, f))
   \<and> (content f = Unreadable JSONDecodeError \<or> content f = Unreadable IOError \<or> content f = NoFile
      \<longrightarrow> fst (load_state f) = Inr default_state
          \<and> last_fire_entry default_state rule_name = None
          \<and> should_fire cfg now rule_name sev f = (Inr True, f))"
proof (intro conjI impI)
  assume "fst (load_state f) = Inr st \<and>
      (last_fire_entry st rule_name = Some (Malformed s) \<or> last_fire_entry st rule_name = Some NonString)"
  then show "should_fire cfg now rule_name sev f = (Inr True, f)"
    by (auto simp: should_fire_on_state)
next
  assume c: "content f = Unreadable JSONDecodeError \<or> content f = Unreadable IOError \<or> content f = NoFile"
  then show l: "fst (load_state f) = Inr default_state"
    by (auto simp: load_state_def)
  show e: "last_fire_entry default_state rule_name = None"
    by (simp add: last_fire_entry_def default_state_def)
  show "should_fire cfg now rule_name sev f = (Inr True, f)"
    by (simp add: should_fire_on_state [OF l] e)
qed

section \<open>Claims\<close>

text \<open>
  C1. If the predicate of a rule of the registry raises during \<open>evaluate_rules\<close>, the
  exception is handled (the handler prints the rule's name with it), the rule is not
  among the triggered ones, and every other rule of the registry is evaluated as if the
  raising rule were not there: the result is the result for the rules before it followed
  by the result for the rules after it, and every rule whose predicate returns true is in
  it. \<open>evaluate_rules\<close> returns a list in every case.
\<close>

theorem evaluate_rules_isolates_fault:
  assumes "check r snapshot empty_ctx = Inl e"
  shows "evaluate_rules (before @ r # after) snapshot
           = evaluate_rules before snapshot @ evaluate_rules after snapshot
         \<and> (name r, e) \<in> set (evaluate_rules_printed (before @ r # after) snapshot)
         \<and> (\<forall>t \<in> set (evaluate_rules (before @ r # after) snapshot). rule t \<noteq> r)
         \<and> (\<forall>r' \<in> set (before @ after). \<forall>c. check r' snapshot empty_ctx = Inr (True, c) \<longrightarrow>
               \<lparr>rule = r', tr_value = ctx_value c, tr_symbol = ctx_symbol c,
                 extra_context = ctx_extra c\<rparr>
                 \<in> set (evaluate_rules (before @ r # after) snapshot))"
proof (intro conjI ballI allI impI)
  have single: "evaluate_rules [r] snapshot = []"
    using assms by (simp add: evaluate_rules_single)
  show eq: "evaluate_rules (before @ r # after) snapshot
           = evaluate_rules before snapshot @ evaluate_rules after snapshot"
    using evaluate_rules_append [of before "r # after" snapshot]
          evaluate_rules_Cons [of r after snapshot] single by simp
  show "(name r, e) \<in> set (evaluate_rules_printed (before @ r # after) snapshot)"
    using evaluate_rules_printed_append [of before "[r] @ after" snapshot]
          evaluate_rules_printed_append [of "[r]" after snapshot] assms
    by (simp add: evaluate_rules_printed_single)
next
  fix t assume "t \<in> set (evaluate_rules (before @ r # after) snapshot)"
  then obtain c where "check (rule t) snapshot empty_ctx = Inr (True, c)"
    using evaluate_rules_sound by blast
  with assms show "rule t \<noteq> r" by auto
next
  fix r' c
  assume r': "r' \<in> set (before @ after)" and c: "check r' snapshot empty_ctx = Inr (True, c)"
  from r' have "r' \<in> set (before @ r # after)" by auto
  then show "\<lparr>rule = r', tr_value = ctx_value c, tr_symbol = ctx_symbol c,
                 extra_context = ctx_extra c\<rparr>
                 \<in> set (evaluate_rules (before @ r # after) snapshot)"
    using c by (rule evaluate_rules_complete)
qed

theorem evaluate_rules_isolates_fault_witness:
  "check faulty_rule (hyg_only None) empty_ctx = Inl ZeroDivisionError
   \<and> triggered_names (evaluate_rules ([] @ faulty_rule # RULES default_config) (hyg_only None))
       = [''CREDIT_STRESS_INTRADAY'']
   \<and> (''FAULTY'', ZeroDivisionError)
       \<in> set (evaluate_rules_printed ([] @ faulty_rule # RULES default_config) (hyg_only None))"
proof -
  have h: "check faulty_rule (hyg_only None) empty_ctx = Inl ZeroDivisionError"
    by (simp add: faulty_rule_def)
  have n: "name faulty_rule = ''FAULTY''"
    by (simp add: faulty_rule_def)
  have ev: "triggered_names (evaluate_rules (RULES default_config) (hyg_only None))
              = [''CREDIT_STRESS_INTRADAY'']"
    by (simp add: triggered_names_def evaluate_rules_def registry_defs check_defs
        hyg_only_def hyg_data_def default_config_def)
  from evaluate_rules_isolates_fault [OF h, of "[]" "RULES default_config"] h n ev
  show ?thesis by (simp add: evaluate_rules_Nil)
qed

text \<open>
  C9. \<open>get_drawdown_from_high\<close> returns nothing when the 52-week high is absent or
  zero and \<open>(current - high) / high * 100\<close> otherwise; when the 52-week high is positive
  and the current price is at or below it, the value is at most 0.
\<close>

theorem drawdown_from_high_nonpositive:
  "(high_52w m = None \<or> high_52w m = Some 0 \<longrightarrow> get_drawdown_from_high m = None)
   \<and> (\<forall>h. high_52w m = Some h \<and> h \<noteq> 0 \<longrightarrow>
          get_drawdown_from_high m = Some ((current_price m - h) / h * 100))
   \<and> (\<forall>h d. high_52w m = Some h \<and> 0 < h \<and> current_price m \<le> h
          \<and> get_drawdown_from_high m = Some d \<longrightarrow> d \<le> 0)"
  by (auto simp: get_drawdown_from_high_def divide_le_0_iff)

theorem drawdown_from_high_nonpositive_witness:
  "high_52w (spy_at 90 100) = Some 100 \<and> (0::real) < 100 \<and> current_price (spy_at 90 100) \<le> 100
   \<and> get_drawdown_from_high (spy_at 90 100) = Some (-10) \<and> (-10::real) \<le> 0"
  using drawdown_from_high_nonpositive [of "spy_at 90 100"]
  by (simp add: spy_at_def get_drawdown_from_high_def)

theorem drawdown_positive_counterexample:
  "high_52w negative_high = Some (-10) \<and> current_price negative_high \<le> -10
   \<and> get_drawdown_from_high negative_high = Some 100 \<and> \<not> (100::real) \<le> 0"
  by (simp add: negative_high_def get_drawdown_from_high_def)

text \<open>
  C3. When SPY is in the snapshot and its drawdown from the 52-week high is at or beyond
  \<open>-10%\<close>, the rules \<open>SPY_DRAWDOWN_2PCT\<close>, \<open>SPY_DRAWDOWN_4PCT\<close>, \<open>SPY_DRAWDOWN_6PCT\<close>
  and \<open>SPY_DRAWDOWN_10PCT\<close> are all in the triggered set, under every configuration;
  at a drawdown of exactly \<open>-10%\<close> the \<open>-15%\<close> and \<open>-20%\<close> rules are not.
\<close>

theorem drawdown_rules_monotone:
  assumes "snapshot_get snapshot ''SPY'' = Some spy"
      and "get_drawdown_from_high spy = Some d"
      and "d \<le> -10"
  shows "{''SPY_DRAWDOWN_2PCT'', ''SPY_DRAWDOWN_4PCT'', ''SPY_DRAWDOWN_6PCT'', ''SPY_DRAWDOWN_10PCT''}
           \<subseteq> set (triggered_names (evaluate_rules (RULES cfg) snapshot))
         \<and> (d = -10 \<longrightarrow>
              ''SPY_DRAWDOWN_15PCT'' \<notin> set (triggered_names (evaluate_rules (RULES cfg) snapshot))
            \<and> ''SPY_DRAWDOWN_20PCT'' \<notin> set (triggered_names (evaluate_rules (RULES cfg) snapshot)))"
proof -
  let ?static = "triggered_names (evaluate_rules (STATIC_RULES cfg) snapshot)"
  let ?dd = "triggered_names (evaluate_rules (map drawdown_rule DRAWDOWN_LEVELS) snapshot)"
  have dd: "?dd = map (\<lambda>l. name (drawdown_rule l)) (filter (\<lambda>l. d \<le> of_int l) DRAWDOWN_LEVELS)"
    using assms(1,2) by (rule drawdown_rules_names)
  have st: "set ?static \<subseteq> name ` set (STATIC_RULES cfg)"
    by (rule triggered_names_subset)
  have no15: "''SPY_DRAWDOWN_15PCT'' \<notin> name ` set (STATIC_RULES cfg)"
    and no20: "''SPY_DRAWDOWN_20PCT'' \<notin> name ` set (STATIC_RULES cfg)"
    by (simp_all add: static_rule_names)
  have incl: "{''SPY_DRAWDOWN_2PCT'', ''SPY_DRAWDOWN_4PCT'', ''SPY_DRAWDOWN_6PCT'', ''SPY_DRAWDOWN_10PCT''}
           \<subseteq> set ?dd"
    using assms(3) unfolding dd by (simp add: DRAWDOWN_LEVELS_def drawdown_rule_names)
  have excl: "d = -10 \<Longrightarrow> ''SPY_DRAWDOWN_15PCT'' \<notin> set ?dd \<and> ''SPY_DRAWDOWN_20PCT'' \<notin> set ?dd"
    unfolding dd by (simp add: DRAWDOWN_LEVELS_def drawdown_rule_names)
  show ?thesis
    using incl excl st no15 no20 unfolding RULES_names_split by auto
qed

theorem drawdown_rules_monotone_witness:
  "snapshot_get (spy_only 90 100) ''SPY'' = Some (spy_at 90 100)
   \<and> get_drawdown_from_high (spy_at 90 100) = Some (-10)
   \<and> (-10::real) \<le> -10
   \<and> {''SPY_DRAWDOWN_2PCT'', ''SPY_DRAWDOWN_4PCT'', ''SPY_DRAWDOWN_6PCT'', ''SPY_DRAWDOWN_10PCT''}
         \<subseteq> set (triggered_names (evaluate_rules (RULES default_config) (spy_only 90 100)))
   \<and> ''SPY_DRAWDOWN_15PCT'' \<notin> set (triggered_names (evaluate_rules (RULES default_config) (spy_only 90 100)))
   \<and> ''SPY_DRAWDOWN_20PCT'' \<notin> set (triggered_names (evaluate_rules (RULES default_config) (spy_only 90 100)))"
proof -
  have a: "snapshot_get (spy_only 90 100) ''SPY'' = Some (spy_at 90 100)"
    by (simp add: snapshot_get_def spy_only_def)
  have b: "get_drawdown_from_high (spy_at 90 100) = Some (-10)"
    by (simp add: spy_at_def get_drawdown_from_high_def)
  have c: "(-10::real) \<le> -10" by simp
  from drawdown_rules_monotone [OF a b c, of default_config] a b
  show ?thesis by simp
qed

text \<open>
  C8 (the code does otherwise). The thresholds of \<open>check_combined_stress\<close> (\<open>-2.5\<close>),
  \<open>check_risk_appetite_positive\<close> (\<open>1.5\<close>) and \<open>check_btc_major_move\<close> (\<open>8.0\<close>) and
  the drawdown levels are literals of the module: under every configuration whatever,
  the snapshot with SPY at \<open>-3.0%\<close> and TLT at \<open>-1.0%\<close> triggers \<open>COMBINED_STRESS\<close>
  and \<open>SPY_DRAWDOWN_2PCT\<close>, and the snapshot with SPY and QQQ at \<open>+1.5%\<close> and BTC at
  \<open>+8.0%\<close> triggers \<open>RISK_APPETITE_POSITIVE\<close> and \<open>BTC_MAJOR_MOVE\<close>.
\<close>

theorem hard_coded_thresholds_ignore_config:
  "triggered_names (evaluate_rules (RULES cfg) selloff_snapshot)
     = [''COMBINED_STRESS'', ''SPY_DRAWDOWN_2PCT'']
   \<and> ''RISK_APPETITE_POSITIVE'' \<in> set (triggered_names (evaluate_rules (RULES cfg) rally_snapshot))
   \<and> ''BTC_MAJOR_MOVE'' \<in> set (triggered_names (evaluate_rules (RULES cfg) rally_snapshot))"
proof (intro conjI)
  show "triggered_names (evaluate_rules (RULES cfg) selloff_snapshot)
     = [''COMBINED_STRESS'', ''SPY_DRAWDOWN_2PCT'']"
    by (simp add: triggered_names_def evaluate_rules_def registry_defs check_defs
        selloff_snapshot_def instrument_def get_drawdown_from_high_def str_int_digits)
next
  have "\<exists>r \<in> set (RULES cfg). name r = ''RISK_APPETITE_POSITIVE''
          \<and> check r = returning check_risk_appetite_positive"
    by (simp add: RULES_def STATIC_RULES_def)
  then obtain r where r: "r \<in> set (RULES cfg)" "name r = ''RISK_APPETITE_POSITIVE''"
      "check r = returning check_risk_appetite_positive" by blast
  have "check r rally_snapshot empty_ctx
          = Inr (True, empty_ctx\<lparr>ctx_extra := Some [(''spy'', 1.5), (''qqq'', 1.5)]\<rparr>)"
    by (simp add: r(3) returning_def check_risk_appetite_positive_def rally_snapshot_def
        instrument_def snapshot_get_def)
  with r(1) have "name r \<in> set (triggered_names (evaluate_rules (RULES cfg) rally_snapshot))"
    by (rule triggered_name_complete)
  then show "''RISK_APPETITE_POSITIVE'' \<in> set (triggered_names (evaluate_rules (RULES cfg) rally_snapshot))"
    by (simp only: r(2))
next
  have "\<exists>r \<in> set (RULES cfg). name r = ''BTC_MAJOR_MOVE''
          \<and> check r = returning check_btc_major_move"
    by (simp add: RULES_def STATIC_RULES_def)
  then obtain r where r: "r \<in> set (RULES cfg)" "name r = ''BTC_MAJOR_MOVE''"
      "check r = returning check_btc_major_move" by blast
  have "check r rally_snapshot empty_ctx
          = Inr (True, empty_ctx\<lparr>ctx_value := Some 8, ctx_symbol := Some ''BTC''\<rparr>)"
    by (simp add: r(3) returning_def check_btc_major_move_def rally_snapshot_def
        instrument_def snapshot_get_def)
  with r(1) have "name r \<in> set (triggered_names (evaluate_rules (RULES cfg) rally_snapshot))"
    by (rule triggered_name_complete)
  then show "''BTC_MAJOR_MOVE'' \<in> set (triggered_names (evaluate_rules (RULES cfg) rally_snapshot))"
    by (simp only: r(2))
qed

text \<open>
  C5. For a snapshot that holds the high-yield-bond instrument only, at \<open>-2.0%\<close>
  intraday, under the default configuration: when its 5-day change is absent or above
  \<open>-3.0%\<close>, \<open>evaluate_rules\<close> returns \<open>CREDIT_STRESS_INTRADAY\<close> alone and
  \<open>assess_regime\<close> returns \<open>NORMAL\<close> with no trigger; when its 5-day change is at or
  below \<open>-3.0%\<close>, \<open>evaluate_rules\<close> returns \<open>CREDIT_STRESS_INTRADAY\<close> and
  \<open>CREDIT_STRESS_5D\<close>, and \<open>assess_regime\<close> returns \<open>DEFENSIVE\<close> with exactly one
  trigger, which starts with "Credit stress".
\<close>

theorem hyg_only_end_to_end:
  assumes "data snapshot = [''HYG'' \<mapsto> hyg]" and "intraday_change_pct hyg = -2"
  shows "((change_5d_pct hyg = None \<or> (\<exists>ch. change_5d_pct hyg = Some ch \<and> -3 < ch)) \<longrightarrow>
            triggered_names (evaluate_rules (RULES (load_config None)) snapshot)
              = [''CREDIT_STRESS_INTRADAY'']
          \<and> regime (assess_regime fmt None vix_prev snapshot) = NORMAL
          \<and> triggers (assess_regime fmt None vix_prev snapshot) = [])
       \<and> (\<forall>ch. change_5d_pct hyg = Some ch \<and> ch \<le> -3 \<longrightarrow>
            triggered_names (evaluate_rules (RULES (load_config None)) snapshot)
              = [''CREDIT_STRESS_INTRADAY'', ''CREDIT_STRESS_5D'']
          \<and> regime (assess_regime fmt None vix_prev snapshot) = DEFENSIVE
          \<and> triggers (assess_regime fmt None vix_prev snapshot)
              = [''Credit stress: HYG 5D return '' @ fmt ch @ ''%''])"
  using hyg_only_rules [OF assms] hyg_only_regime [OF assms(1), of fmt vix_prev]
  by (auto split: option.splits)

theorem hyg_only_end_to_end_witness:
  "data (hyg_only None) = [''HYG'' \<mapsto> hyg_data None]
   \<and> intraday_change_pct (hyg_data None) = -2
   \<and> change_5d_pct (hyg_data None) = None
   \<and> triggered_names (evaluate_rules (RULES (load_config None)) (hyg_only None))
        = [''CREDIT_STRESS_INTRADAY'']
   \<and> regime (assess_regime format_1f None None (hyg_only None)) = NORMAL
   \<and> triggers (assess_regime format_1f None None (hyg_only None)) = []
   \<and> data (hyg_only (Some (-4))) = [''HYG'' \<mapsto> hyg_data (Some (-4))]
   \<and> intraday_change_pct (hyg_data (Some (-4))) = -2
   \<and> change_5d_pct (hyg_data (Some (-4))) = Some (-4) \<and> (-4::real) \<le> -3
   \<and> triggered_names (evaluate_rules (RULES (load_config None)) (hyg_only (Some (-4))))
        = [''CREDIT_STRESS_INTRADAY'', ''CREDIT_STRESS_5D'']
   \<and> regime (assess_regime format_1f None None (hyg_only (Some (-4)))) = DEFENSIVE
   \<and> triggers (assess_regime format_1f None None (hyg_only (Some (-4))))
        = [''Credit stress: HYG 5D return -4.0%'']"
proof -
  have d: "data (hyg_only x) = [''HYG'' \<mapsto> hyg_data x]" for x
    by (simp add: hyg_only_def)
  have i: "intraday_change_pct (hyg_data x) = -2" for x
    by (simp add: hyg_data_def)
  have c: "change_5d_pct (hyg_data x) = x" for x
    by (simp add: hyg_data_def)
  have f: "format_1f (-4) = ''-4.0''"
    by (simp add: format_1f_def round_half_even_def str_nat.simps digit_char_def Let_def)
  from hyg_only_end_to_end [OF d i, of None format_1f None]
       hyg_only_end_to_end [OF d i, of "Some (-4)" format_1f None]
  show ?thesis by (simp add: d i c f)
qed

theorem hyg_only_counterexample:
  "regime (assess_regime format_1f None None (hyg_only None)) = NORMAL
   \<and> triggers (assess_regime format_1f None None (hyg_only None)) = []
   \<and> triggered_names (evaluate_rules (RULES (load_config None)) (hyg_only (Some (-4))))
        = [''CREDIT_STRESS_INTRADAY'', ''CREDIT_STRESS_5D'']"
proof -
  have d: "data (hyg_only x) = [''HYG'' \<mapsto> hyg_data x]" for x
    by (simp add: hyg_only_def)
  have i: "intraday_change_pct (hyg_data x) = -2" for x
    by (simp add: hyg_data_def)
  have c: "change_5d_pct (hyg_data x) = x" for x
    by (simp add: hyg_data_def)
  show ?thesis
    by (simp add: hyg_only_regime [OF d] hyg_only_rules [OF d i] c)
qed

text \<open>
  C4. \<open>assess_regime\<close> returns \<open>DEFENSIVE\<close> exactly when at least one of the five
  trigger conditions of the specification holds and \<open>NORMAL\<close> exactly when none does;
  the trigger list has one entry for each condition that holds (as many entries as
  conditions that hold, and for each condition an entry with its label exactly when it
  holds); the summary of a \<open>DEFENSIVE\<close> assessment states that count.
\<close>

theorem assess_regime_collects_all_triggers:
  "(regime (assess_regime fmt file vix_prev snapshot) = DEFENSIVE \<longleftrightarrow> True \<in> set (spec_conditions (load_regime_thresholds file) vix_prev snapshot))
       \<and> (regime (assess_regime fmt file vix_prev snapshot) = NORMAL \<longleftrightarrow> True \<notin> set (spec_conditions (load_regime_thresholds file) vix_prev snapshot))
       \<and> length (triggers (assess_regime fmt file vix_prev snapshot)) = count_true (spec_conditions (load_regime_thresholds file) vix_prev snapshot)
       \<and> summary (assess_regime fmt file vix_prev snapshot) =
           (if True \<in> set (spec_conditions (load_regime_thresholds file) vix_prev snapshot)
            then ''DEFENSIVE regime - ''
                 @ str_int (int (count_true (spec_conditions (load_regime_thresholds file) vix_prev snapshot)))
                 @ '' warning signal(s) active''
            else ''NORMAL regime - no significant stress signals detected'')
       \<and> (spec_credit_stress (load_regime_thresholds file) snapshot \<longleftrightarrow> (\<exists>t \<in> set (triggers (assess_regime fmt file vix_prev snapshot)). prefix ''Credit stress'' t))
       \<and> (spec_liquidity_tightening (load_regime_thresholds file) snapshot
            \<longleftrightarrow> (\<exists>t \<in> set (triggers (assess_regime fmt file vix_prev snapshot)). prefix ''Liquidity tightening'' t))
       \<and> (spec_elevated_rising_volatility (load_regime_thresholds file) vix_prev snapshot
            \<longleftrightarrow> (\<exists>t \<in> set (triggers (assess_regime fmt file vix_prev snapshot)). prefix ''Elevated'' t))
       \<and> (spec_combined_stress (load_regime_thresholds file) snapshot \<longleftrightarrow> (\<exists>t \<in> set (triggers (assess_regime fmt file vix_prev snapshot)). prefix ''Combined stress'' t))
       \<and> (spec_structural_weakness snapshot
            \<longleftrightarrow> (\<exists>t \<in> set (triggers (assess_regime fmt file vix_prev snapshot)). prefix ''Structural weakness'' t))"
proof -
  let ?a = "assess_regime fmt file vix_prev snapshot"
  let ?th = "load_regime_thresholds file"
  let ?b1 = "hyg_5d_stress fmt ?th snapshot"
  let ?b2 = "dxy_5d_strength fmt ?th snapshot"
  let ?b3 = "vix_elevated_and_rising fmt ?th vix_prev snapshot"
  let ?b4 = "spy_tlt_combined_stress fmt ?th snapshot"
  let ?b5 = "structural_weakness snapshot"
  let ?cs = "spec_conditions ?th vix_prev snapshot"
  have T: "triggers ?a = ?b1 @ ?b2 @ ?b3 @ ?b4 @ ?b5"
    by (simp add: triggers_assess_regime)
  have len: "length (triggers ?a) = count_true ?cs"
    by (simp add: length_triggers)
  have empty: "triggers ?a = [] \<longleftrightarrow> True \<notin> set ?cs"
    using len count_true_zero [of ?cs] by auto
  have reg: "regime ?a = (if triggers ?a = [] then NORMAL else DEFENSIVE)"
    by (simp add: regime_assess_regime)
  have summ: "summary ?a =
        (if triggers ?a = [] then ''NORMAL regime - no significant stress signals detected''
         else ''DEFENSIVE regime - '' @ str_int (int (length (triggers ?a)))
              @ '' warning signal(s) active'')"
    by (rule summary_assess_regime)
  have p1: "prefix ''Credit stress'' t" if "t \<in> set ?b1" for t
    using that by (rule hyg_5d_stress_prefix)
  have p2: "prefix ''Liquidity tightening'' t" if "t \<in> set ?b2" for t
    using that by (rule dxy_5d_strength_prefix)
  have p3: "prefix ''Elevated'' t" if "t \<in> set ?b3" for t
    using that by (rule vix_elevated_and_rising_prefix)
  have p4: "prefix ''Combined stress'' t" if "t \<in> set ?b4" for t
    using that by (rule spy_tlt_combined_stress_prefix)
  have p5: "prefix ''Structural weakness'' t" if "t \<in> set ?b5" for t
    using that by (rule structural_weakness_prefix)
  have c1: "spec_credit_stress ?th snapshot
              \<longleftrightarrow> (\<exists>t \<in> set ?b1 \<union> set (?b2 @ ?b3 @ ?b4 @ ?b5). prefix ''Credit stress'' t)"
  proof (rule label_iff [OF hyg_5d_stress_length p1])
    fix t assume "t \<in> set (?b2 @ ?b3 @ ?b4 @ ?b5)"
    then consider "t \<in> set ?b2" | "t \<in> set ?b3" | "t \<in> set ?b4" | "t \<in> set ?b5" by auto
    then show "\<not> prefix ''Credit stress'' t"
      by cases (erule p2 [THEN labels_exclusive] p3 [THEN labels_exclusive]
                      p4 [THEN labels_exclusive] p5 [THEN labels_exclusive]; simp)+
  qed
  have c2: "spec_liquidity_tightening ?th snapshot
              \<longleftrightarrow> (\<exists>t \<in> set ?b2 \<union> set (?b1 @ ?b3 @ ?b4 @ ?b5). prefix ''Liquidity tightening'' t)"
  proof (rule label_iff [OF dxy_5d_strength_length p2])
    fix t assume "t \<in> set (?b1 @ ?b3 @ ?b4 @ ?b5)"
    then consider "t \<in> set ?b1" | "t \<in> set ?b3" | "t \<in> set ?b4" | "t \<in> set ?b5" by auto
    then show "\<not> prefix ''Liquidity tightening'' t"
      by cases (erule p1 [THEN labels_exclusive] p3 [THEN labels_exclusive]
                      p4 [THEN labels_exclusive] p5 [THEN labels_exclusive]; simp)+
  qed
  have c3: "spec_elevated_rising_volatility ?th vix_prev snapshot
              \<longleftrightarrow> (\<exists>t \<in> set ?b3 \<union> set (?b1 @ ?b2 @ ?b4 @ ?b5). prefix ''Elevated'' t)"
  proof (rule label_iff [OF vix_elevated_and_rising_length p3])
    fix t assume "t \<in> set (?b1 @ ?b2 @ ?b4 @ ?b5)"
    then consider "t \<in> set ?b1" | "t \<in> set ?b2" | "t \<in> set ?b4" | "t \<in> set ?b5" by auto
    then show "\<not> prefix ''Elevated'' t"
      by cases (erule p1 [THEN labels_exclusive] p2 [THEN labels_exclusive]
                      p4 [THEN labels_exclusive] p5 [THEN labels_exclusive]; simp)+
  qed
  have c4: "spec_combined_stress ?th snapshot
              \<longleftrightarrow> (\<exists>t \<in> set ?b4 \<union> set (?b1 @ ?b2 @ ?b3 @ ?b5). prefix ''Combined stress'' t)"
  proof (rule label_iff [OF spy_tlt_combined_stress_length p4])
    fix t assume "t \<in> set (?b1 @ ?b2 @ ?b3 @ ?b5)"
    then consider "t \<in> set ?b1" | "t \<in> set ?b2" | "t \<in> set ?b3" | "t \<in> set ?b5" by auto
    then show "\<not> prefix ''Combined stress'' t"
      by cases (erule p1 [THEN labels_exclusive] p2 [THEN labels_exclusive]
                      p3 [THEN labels_exclusive] p5 [THEN labels_exclusive]; simp)+
  qed
  have c5: "spec_structural_weakness snapshot
              \<longleftrightarrow> (\<exists>t \<in> set ?b5 \<union> set (?b1 @ ?b2 @ ?b3 @ ?b4). prefix ''Structural weakness'' t)"
  proof (rule label_iff [OF structural_weakness_length p5])
    fix t assume "t \<in> set (?b1 @ ?b2 @ ?b3 @ ?b4)"
    then consider "t \<in> set ?b1" | "t \<in> set ?b2" | "t \<in> set ?b3" | "t \<in> set ?b4" by auto
    then show "\<not> prefix ''Structural weakness'' t"
      by cases (erule p1 [THEN labels_exclusive] p2 [THEN labels_exclusive]
                      p3 [THEN labels_exclusive] p4 [THEN labels_exclusive]; simp)+
  qed
  have s1: "set ?b1 \<union> set (?b2 @ ?b3 @ ?b4 @ ?b5) = set (triggers ?a)"
   and s2: "set ?b2 \<union> set (?b1 @ ?b3 @ ?b4 @ ?b5) = set (triggers ?a)"
   and s3: "set ?b3 \<union> set (?b1 @ ?b2 @ ?b4 @ ?b5) = set (triggers ?a)"
   and s4: "set ?b4 \<union> set (?b1 @ ?b2 @ ?b3 @ ?b5) = set (triggers ?a)"
   and s5: "set ?b5 \<union> set (?b1 @ ?b2 @ ?b3 @ ?b4) = set (triggers ?a)"
    unfolding T by auto
  show ?thesis
    using reg summ len empty c1 c2 c3 c4 c5 unfolding s1 s2 s3 s4 s5
    by simp
qed

theorem assess_regime_collects_all_triggers_witness:
  "spec_conditions (load_regime_thresholds None) None (hyg_only (Some (-4)))
     = [True, False, False, False, False]
   \<and> regime (assess_regime format_1f None None (hyg_only (Some (-4)))) = DEFENSIVE
   \<and> length (triggers (assess_regime format_1f None None (hyg_only (Some (-4))))) = 1
   \<and> summary (assess_regime format_1f None None (hyg_only (Some (-4))))
       = ''DEFENSIVE regime - 1 warning signal(s) active''
   \<and> spec_conditions (load_regime_thresholds None) None (hyg_only None)
     = [False, False, False, False, False]
   \<and> regime (assess_regime format_1f None None (hyg_only None)) = NORMAL
   \<and> triggers (assess_regime format_1f None None (hyg_only None)) = []"
proof -
  have sc: "spec_conditions (load_regime_thresholds None) None (hyg_only (Some (-4)))
     = [True, False, False, False, False]"
    by (simp add: spec_conditions_def spec_credit_stress_def spec_liquidity_tightening_def
        spec_elevated_rising_volatility_def spec_combined_stress_def spec_structural_weakness_def
        snapshot_get_def hyg_only_def hyg_data_def dict_get_def load_regime_thresholds_def
        default_regime_thresholds_def)
  have sn: "spec_conditions (load_regime_thresholds None) None (hyg_only None)
     = [False, False, False, False, False]"
    by (simp add: spec_conditions_def spec_credit_stress_def spec_liquidity_tightening_def
        spec_elevated_rising_volatility_def spec_combined_stress_def spec_structural_weakness_def
        snapshot_get_def hyg_only_def hyg_data_def dict_get_def load_regime_thresholds_def
        default_regime_thresholds_def)
  have one: "str_int 1 = ''1''"
    by (simp add: str_int_def str_nat.simps digit_char_def)
  from assess_regime_collects_all_triggers [of format_1f None None "hyg_only (Some (-4))"]
       assess_regime_collects_all_triggers [of format_1f None None "hyg_only None"]
  show ?thesis by (simp add: sc sn count_true_def one)
qed

text \<open>
  C7. The threshold is the value of the key \<open>vix_level_threshold\<close> in the regime
  section of the configuration file, and 30 when the file or the key is absent. With the
  volatility index in the snapshot: when the previous close is available, the volatility
  trigger is in the list exactly when the level is at or above that threshold and
  strictly above the previous close, with the elevated-and-rising message; when the
  previous close is unavailable, exactly when the level is at or above the threshold,
  with the level-only message and no elevated-and-rising one; the two messages differ
  whatever the numbers.
\<close>

theorem vix_trigger_elevated_and_rising:
  assumes "snapshot_get snapshot ''^VIX'' = Some vix"
      and "thr = (case cfg_file of
                    None \<Rightarrow> 30
                  | Some c \<Rightarrow> (case regime_section c ''vix_level_threshold'' of
                                None \<Rightarrow> 30 | Some v \<Rightarrow> v))"
  shows "(\<forall>p. vix_prev = Some p \<longrightarrow>
            ((\<exists>t \<in> set (triggers (assess_regime fmt cfg_file vix_prev snapshot)). prefix ''Elevated'' t)
               \<longleftrightarrow> current_price vix \<ge> thr \<and> current_price vix > p)
          \<and> (current_price vix \<ge> thr \<and> current_price vix > p \<longrightarrow>
              ''Elevated and rising volatility: VIX '' @ fmt (current_price vix)
                 @ '' (prev: '' @ fmt p @ '')''
                \<in> set (triggers (assess_regime fmt cfg_file vix_prev snapshot))))
       \<and> (vix_prev = None \<longrightarrow>
            ((\<exists>t \<in> set (triggers (assess_regime fmt cfg_file vix_prev snapshot)). prefix ''Elevated'' t)
               \<longleftrightarrow> current_price vix \<ge> thr)
          \<and> (current_price vix \<ge> thr \<longrightarrow>
              ''Elevated volatility: VIX '' @ fmt (current_price vix)
                \<in> set (triggers (assess_regime fmt cfg_file vix_prev snapshot)))
          \<and> \<not> (\<exists>t \<in> set (triggers (assess_regime fmt cfg_file vix_prev snapshot)).
                  prefix ''Elevated and rising'' t))
       \<and> (\<forall>x y z. ''Elevated and rising volatility: VIX '' @ x @ '' (prev: '' @ y @ '')''
                  \<noteq> ''Elevated volatility: VIX '' @ z)"
proof -
  have th: "dict_get (load_regime_thresholds cfg_file) ''vix_level_threshold'' 30 = thr"
    unfolding assms(2) by (rule configured_vix_threshold)
  from vix_trigger_on_table [OF assms(1), where vix_prev = vix_prev and fmt = fmt and cfg_file = cfg_file]
  show ?thesis unfolding th by blast
qed

theorem vix_trigger_elevated_and_rising_witness:
  "snapshot_get (vix_only 35) ''^VIX'' = Some (instrument ''^VIX'' 35 0)
   \<and> ''Elevated and rising volatility: VIX 35.0 (prev: 32.0)''
        \<in> set (triggers (assess_regime format_1f None (Some 32) (vix_only 35)))
   \<and> ''Elevated volatility: VIX 35.0''
        \<in> set (triggers (assess_regime format_1f None None (vix_only 35)))
   \<and> \<not> (\<exists>t \<in> set (triggers (assess_regime format_1f None (Some 40) (vix_only 35))).
           prefix ''Elevated'' t)
   \<and> \<not> (\<exists>t \<in> set (triggers (assess_regime format_1f None None (vix_only 27))).
           prefix ''Elevated'' t)
   \<and> regime_section low_vix_threshold_config ''vix_level_threshold'' = Some 25
   \<and> ''Elevated volatility: VIX 27.0''
        \<in> set (triggers (assess_regime format_1f (Some low_vix_threshold_config) None (vix_only 27)))
   \<and> \<not> (\<exists>t \<in> set (triggers (assess_regime format_1f (Some low_vix_threshold_config) None
                                (vix_only 24))).
           prefix ''Elevated'' t)"
proof -
  have v: "snapshot_get (vix_only x) ''^VIX'' = Some (instrument ''^VIX'' x 0)" for x
    by (simp add: snapshot_get_def vix_only_def)
  have c: "current_price (instrument ''^VIX'' x 0) = x" for x
    by (simp add: instrument_def)
  have d: "(30::real) = (case (None :: config option) of
                    None \<Rightarrow> 30
                  | Some c \<Rightarrow> (case regime_section c ''vix_level_threshold'' of
                                None \<Rightarrow> 30 | Some v \<Rightarrow> v))"
    by simp
  have r: "regime_section low_vix_threshold_config ''vix_level_threshold'' = Some 25"
    by (simp add: low_vix_threshold_config_def)
  have k: "(25::real) = (case Some low_vix_threshold_config of
                    None \<Rightarrow> 30
                  | Some c \<Rightarrow> (case regime_section c ''vix_level_threshold'' of
                                None \<Rightarrow> 30 | Some v \<Rightarrow> v))"
    by (simp add: r)
  have f: "format_1f 35 = ''35.0''" "format_1f 32 = ''32.0''" "format_1f 27 = ''27.0''"
    by (simp_all add: format_1f_def round_half_even_def str_nat.simps digit_char_def Let_def)
  from vix_trigger_elevated_and_rising [OF v [of 35] d, where vix_prev = "Some 32" and fmt = format_1f]
       vix_trigger_elevated_and_rising [OF v [of 35] d, where vix_prev = "None" and fmt = format_1f]
       vix_trigger_elevated_and_rising [OF v [of 35] d, where vix_prev = "Some 40" and fmt = format_1f]
       vix_trigger_elevated_and_rising [OF v [of 27] d, where vix_prev = "None" and fmt = format_1f]
       vix_trigger_elevated_and_rising [OF v [of 27] k, where vix_prev = "None" and fmt = format_1f]
       vix_trigger_elevated_and_rising [OF v [of 24] k, where vix_prev = "None" and fmt = format_1f]
  show ?thesis by (simp add: v c f r)
qed




text \<open>
  C6 (the code does otherwise). A state file whose bytes are not valid text makes the
  read raise \<open>UnicodeDecodeError\<close>, which \<open>load_state\<close> does not handle: the
  exception leaves \<open>should_fire\<close>, for every rule name. (For a stored value that is no
  timestamp, and for a file that raises \<open>JSONDecodeError\<close> or \<open>IOError\<close>,
  \<open>should_fire\<close> returns true: lemma \<open>should_fire_fail_open\<close>.)
\<close>

theorem should_fire_undecodable_state_raises:
  "fst (load_state undecodable_fs) = Inl UnicodeDecodeError
   \<and> should_fire cfg now rule_name sev undecodable_fs = (Inl UnicodeDecodeError, undecodable_fs)"
proof -
  have l: "fst (load_state undecodable_fs) = Inl UnicodeDecodeError"
    by (simp add: load_state_def undecodable_fs_def)
  then show ?thesis by (simp add: should_fire_raises)
qed




end
